theory Spec2Isabelle
  imports Main
begin

section \<open>Values, errors and the clock\<close>

text \<open>
  The dashboard of \<^verbatim>\<open>DashboardContext\<close> (second document of
  \<^verbatim>\<open>src/components/widget-editor/WidgetEditor.tsx\<close>), the registry of
  \<^verbatim>\<open>widgets/index.tsx\<close> (\<^verbatim>\<open>unnamed/part_001\<close>), the hook
  \<^verbatim>\<open>useLocalStorage\<close> (second document of \<^verbatim>\<open>useWidgetStorage.ts\<close>) and
  the hook \<^verbatim>\<open>useWidgetConfig\<close>.

  Conventions of the embedding.
  \<^item> A JavaScript \<^verbatim>\<open>throw\<close> is the left injection of a sum; a \<^verbatim>\<open>try/catch\<close> is
    a case distinction on it.
  \<^item> Grid coordinates and footprints are integers: the data model counts cells, and a
    TypeScript \<^verbatim>\<open>number\<close> that is not an integer is not a cell and has no counterpart
    here. A \<^verbatim>\<open>number\<close> is a double, whose arithmetic is exact on the safe integers
    (absolute value at most \<open>MAX_SAFE_INTEGER\<close>, that is \<open>2^53 - 1\<close>); beyond them the
    increment of a loop counter can stall. The integers of the embedding agree with the
    code on safe integers, and the theorems about arbitrary existing instances assume
    instances of the data model (\<open>gridCells\<close> below): zero-based cells and a footprint,
    all safe integers.
  \<^item> \<^verbatim>\<open>Date.now()\<close> is the parameter \<open>now\<close> (milliseconds, a natural number) of each
    operation; \<^verbatim>\<open>new Date().toISOString()\<close> is stored as the clock reading it renders
    (the ISO rendering has millisecond precision, so it is injective on readings). All
    clock readings of one call are taken at the same instant \<open>now\<close>.
  \<^item> The opaque \<^verbatim>\<open>Record<string, any>\<close> configuration of a widget instance is a
    value of a type parameter \<open>'c\<close>: the layout manager never looks inside it.
\<close>

datatype error =
    Error string      \<comment> \<open>\<^verbatim>\<open>new Error(message)\<close>\<close>
  | TypeError         \<comment> \<open>reading or writing a property of \<^verbatim>\<open>undefined\<close>\<close>
  | SyntaxError       \<comment> \<open>what \<^verbatim>\<open>JSON.parse\<close> throws\<close>
  | SecurityError     \<comment> \<open>what the storage object may throw on access\<close>

text \<open>The decimal digits of a number, as a template literal prints \<^verbatim>\<open>${Date.now()}\<close>.\<close>

fun decimal :: "nat \<Rightarrow> string" where
  "decimal n = (if n < 10 then [''0123456789'' ! n]
                else decimal (n div 10) @ [''0123456789'' ! (n mod 10)])"

declare decimal.simps [simp del]

text \<open>\<^verbatim>\<open>a || b\<close> on an optional string: \<^verbatim>\<open>undefined\<close> and the empty string are falsy.\<close>

definition orElse :: "string option \<Rightarrow> string \<Rightarrow> string" where
  "orElse a b = (case a of None \<Rightarrow> b | Some s \<Rightarrow> if s = [] then b else s)"

section \<open>Data model\<close>

datatype WidgetSize = Small | Medium | Large

datatype WidgetCategory = Analytics | Data | Tools | Custom

text \<open>\<^verbatim>\<open>WidgetInstance["position"]\<close>: fields \<^verbatim>\<open>x\<close>, \<^verbatim>\<open>y\<close>, \<^verbatim>\<open>w\<close>, \<^verbatim>\<open>h\<close>.\<close>

record Position =
  pos_x :: int
  pos_y :: int
  pos_w :: int
  pos_h :: int

text \<open>\<^verbatim>\<open>WidgetInstance\<close>: fields \<^verbatim>\<open>id\<close>, \<^verbatim>\<open>widgetId\<close>, \<^verbatim>\<open>title\<close>, \<^verbatim>\<open>position\<close>,
  \<^verbatim>\<open>size\<close>, \<^verbatim>\<open>config?\<close>.\<close>

record 'c WidgetInstance =
  wi_id :: string
  wi_widgetId :: string
  wi_title :: string
  wi_position :: Position
  wi_size :: WidgetSize
  wi_config :: "'c option"

text \<open>\<^verbatim>\<open>DashboardLayout\<close>: fields \<^verbatim>\<open>id\<close>, \<^verbatim>\<open>name\<close>, \<^verbatim>\<open>widgets\<close>, \<^verbatim>\<open>createdAt\<close>,
  \<^verbatim>\<open>updatedAt\<close>.\<close>

record 'c DashboardLayout =
  dl_id :: string
  dl_name :: string
  dl_widgets :: "'c WidgetInstance list"
  dl_createdAt :: nat
  dl_updatedAt :: nat

text \<open>\<^verbatim>\<open>WidgetMetadata\<close> (the fields the layout manager reads) and the \<^verbatim>\<open>Widget\<close>
  that \<^verbatim>\<open>createWidgetInstance\<close> builds (without its rendered \<^verbatim>\<open>content\<close>).\<close>

record WidgetMetadata =
  md_name :: string
  md_category :: WidgetCategory
  md_defaultSize :: WidgetSize

record Widget =
  wg_id :: string
  wg_title :: string
  wg_type :: string
  wg_size :: WidgetSize
  wg_category :: WidgetCategory

text \<open>
  The registry is a plain object indexed by the widget id, \<^verbatim>\<open>widgetRegistry[widgetId]\<close>.
  The answer is an entry of the registry, or \<^verbatim>\<open>undefined\<close> (\<open>Missing\<close>), or, for an id
  that names a member the object inherits from \<^verbatim>\<open>Object.prototype\<close>, that member
  (\<open>Inherited\<close>): a truthy value without \<^verbatim>\<open>component\<close> and \<^verbatim>\<open>metadata\<close>.
\<close>

datatype RegistryLookup = Entry WidgetMetadata | Inherited | Missing

type_synonym WidgetRegistry = "string \<Rightarrow> RegistryLookup"

definition builtinWidgets :: "string \<rightharpoonup> WidgetMetadata" where
  "builtinWidgets =
     [''analytics-chart'' \<mapsto> \<lparr>md_name = ''Analytics Chart'', md_category = Analytics, md_defaultSize = Medium\<rparr>,
      ''status-widget'' \<mapsto> \<lparr>md_name = ''Status Widget'', md_category = Tools, md_defaultSize = Small\<rparr>,
      ''code-editor'' \<mapsto> \<lparr>md_name = ''Code Editor'', md_category = Tools, md_defaultSize = Large\<rparr>,
      ''data-display'' \<mapsto> \<lparr>md_name = ''Data Display'', md_category = Data, md_defaultSize = Small\<rparr>]"

text \<open>The property names of \<^verbatim>\<open>Object.prototype\<close>.\<close>

definition objectPrototypeMembers :: "string list" where
  "objectPrototypeMembers =
     [''constructor'', ''hasOwnProperty'', ''isPrototypeOf'', ''propertyIsEnumerable'',
      ''toLocaleString'', ''toString'', ''valueOf'', ''__proto__'', ''__defineGetter__'',
      ''__defineSetter__'', ''__lookupGetter__'', ''__lookupSetter__'']"

text \<open>The registry as the module initialises it, with its four built-in widgets.\<close>

definition widgetRegistry :: WidgetRegistry where
  "widgetRegistry widgetId =
     (case builtinWidgets widgetId of
        Some metadata \<Rightarrow> Entry metadata
      | None \<Rightarrow> if widgetId \<in> set objectPrototypeMembers then Inherited else Missing)"

text \<open>
  \<^verbatim>\<open>createWidgetInstance\<close>. For a missing id it returns \<^verbatim>\<open>null\<close>. For an inherited
  member the test \<^verbatim>\<open>if (!widget) return null\<close> passes, \<^verbatim>\<open>metadata\<close> is \<^verbatim>\<open>undefined\<close>,
  and building the result reads \<^verbatim>\<open>metadata.category\<close> at the latest: a TypeError.
\<close>

definition createWidgetInstance ::
  "WidgetRegistry \<Rightarrow> string \<Rightarrow> string \<Rightarrow> string option \<Rightarrow> 'c option \<Rightarrow> WidgetSize option
     \<Rightarrow> error + Widget option" where
  "createWidgetInstance registry widgetId instanceId title config sz =
     (case registry widgetId of
        Missing \<Rightarrow> Inr None
      | Inherited \<Rightarrow> Inl TypeError
      | Entry metadata \<Rightarrow>
          Inr (Some \<lparr>wg_id = instanceId,
                     wg_title = orElse title (md_name metadata),
                     wg_type = widgetId,
                     wg_size = (case sz of Some s \<Rightarrow> s | None \<Rightarrow> md_defaultSize metadata),
                     wg_category = md_category metadata\<rparr>))"

definition DEFAULT_WIDGET_DIMENSIONS :: "WidgetSize \<Rightarrow> int \<times> int" where
  "DEFAULT_WIDGET_DIMENSIONS sz =
     (case sz of Small \<Rightarrow> (1, 1) | Medium \<Rightarrow> (2, 1) | Large \<Rightarrow> (2, 2))"

section \<open>The placement algorithm\<close>

definition gridWidth :: int where
  "gridWidth = 4"

definition gridHeight :: int where
  "gridHeight = 10"

type_synonym grid = "bool list list"

text \<open>The grid after the initialisation loops: \<open>gridHeight\<close> rows of \<open>gridWidth\<close> empty
  cells.\<close>

definition emptyGrid :: grid where
  "emptyGrid = replicate (nat gridHeight) (replicate (nat gridWidth) False)"

text \<open>A loop whose body may throw: the first throw leaves the loop.\<close>

fun foldE :: "('a \<Rightarrow> 's \<Rightarrow> error + 's) \<Rightarrow> 'a list \<Rightarrow> 's \<Rightarrow> error + 's" where
  "foldE f [] s = Inr s"
| "foldE f (a # as) s = (case f a s of Inl e \<Rightarrow> Inl e | Inr s' \<Rightarrow> foldE f as s')"

text \<open>
  The body of the marking loops,
  \<^verbatim>\<open>if (i < gridHeight && j < gridWidth) { grid[i][j] = true; }\<close>.
  The guard has no lower bound. For a negative row \<open>i\<close> the array has no element
  \<^verbatim>\<open>grid[i]\<close>, and assigning to a property of \<^verbatim>\<open>undefined\<close> throws a TypeError. For a
  row of the grid and a negative column \<open>j\<close> the assignment adds a property named by
  the negative number to the row array and changes no cell.
\<close>

definition markCell :: "int \<Rightarrow> int \<Rightarrow> grid \<Rightarrow> error + grid" where
  "markCell i j g =
     (if i < gridHeight \<and> j < gridWidth then
        (if i < 0 then Inl TypeError
         else if j < 0 then Inr g
         else Inr (g[nat i := (g ! nat i)[nat j := True]]))
      else Inr g)"

text \<open>The body of \<^verbatim>\<open>widgets.forEach\<close>: rows \<open>y \<le> i < y + h\<close>, columns
  \<open>x \<le> j < x + w\<close>.\<close>

definition markWidget :: "'c WidgetInstance \<Rightarrow> grid \<Rightarrow> error + grid" where
  "markWidget widget g =
     (let p = wi_position widget in
      foldE (\<lambda>i. foldE (\<lambda>j. markCell i j) [pos_x p .. pos_x p + pos_w p - 1])
        [pos_y p .. pos_y p + pos_h p - 1] g)"

definition markOccupied :: "'c WidgetInstance list \<Rightarrow> error + grid" where
  "markOccupied widgets = foldE markWidget widgets emptyGrid"

text \<open>The inner two loops of the scan: \<open>canFit\<close> stays true when no cell of the
  rectangle is outside the grid or occupied. The reads \<^verbatim>\<open>grid[i][j]\<close> happen only after
  both bounds checks, with \<open>i\<close> and \<open>j\<close> non-negative.\<close>

definition canFit :: "grid \<Rightarrow> int \<Rightarrow> int \<Rightarrow> int \<Rightarrow> int \<Rightarrow> bool" where
  "canFit g x y width height =
     list_all (\<lambda>i. list_all (\<lambda>j. \<not> (i \<ge> gridHeight \<or> j \<ge> gridWidth \<or> g ! nat i ! nat j))
                       [x .. x + width - 1])
       [y .. y + height - 1]"

text \<open>The candidates in the order the outer two loops visit them: \<open>y\<close> from 0 below
  \<open>gridHeight\<close>, and for each \<open>y\<close>, \<open>x\<close> from 0 below \<open>gridWidth - width + 1\<close>.\<close>

definition candidates :: "int \<Rightarrow> (int \<times> int) list" where
  "candidates width =
     concat (map (\<lambda>y. map (\<lambda>x. (x, y)) [0 .. gridWidth - width]) [0 .. gridHeight - 1])"

definition findAvailablePosition :: "'c WidgetInstance list \<Rightarrow> int \<Rightarrow> int \<Rightarrow> error + Position" where
  "findAvailablePosition widgets width height =
     (case markOccupied widgets of
        Inl e \<Rightarrow> Inl e
      | Inr g \<Rightarrow>
          Inr (case List.find (\<lambda>(x, y). canFit g x y width height) (candidates width) of
                 Some (x, y) \<Rightarrow> \<lparr>pos_x = x, pos_y = y, pos_w = width, pos_h = height\<rparr>
               | None \<Rightarrow> \<lparr>pos_x = 0, pos_y = gridHeight, pos_w = width, pos_h = height\<rparr>))"

section \<open>The layout manager\<close>

text \<open>
  The provider keeps two values in \<^verbatim>\<open>useLocalStorage\<close> hooks: the layout list
  (key \<^verbatim>\<open>dashboard-layouts\<close>, default \<^verbatim>\<open>[]\<close>) and the active-layout id (key
  \<^verbatim>\<open>current-dashboard-layout\<close>, default the empty string). A stored value that is
  still \<^verbatim>\<open>undefined\<close> is read as its default by every reader (\<^verbatim>\<open>prevLayouts = []\<close>,
  \<^verbatim>\<open>layouts || []\<close>), so the state holds the list and the string themselves. The
  field \<open>console\<close> collects what \<^verbatim>\<open>console.error\<close> is given.
\<close>

record 'c DashboardState =
  layouts :: "'c DashboardLayout list"
  currentLayoutId :: string
  console :: "error list"

text \<open>\<^verbatim>\<open>layouts?.find((layout) => layout.id === currentLayoutId) || null\<close>\<close>

definition currentLayout :: "'c DashboardState \<Rightarrow> 'c DashboardLayout option" where
  "currentLayout s = List.find (\<lambda>layout. dl_id layout = currentLayoutId s) (layouts s)"

text \<open>
  The setter \<^verbatim>\<open>setValue\<close> of \<^verbatim>\<open>useLocalStorage\<close>, for the layout list:
  \<^verbatim>\<open>try { const valueToStore = value instanceof Function ? value(storedValue) : value;
  setStoredValue(valueToStore); ... } catch (error) { console.error(...) }\<close>.
  The updater runs inside the \<^verbatim>\<open>try\<close>: what it throws is caught and logged, and the
  stored value stays. \<open>storedValue\<close> is the value the callback closed over, that is the
  list of the render in which the operation was created, not the list written by an
  earlier setter call of the same event handler. The write of the serialised value to
  the browser store follows \<^verbatim>\<open>setStoredValue\<close> inside the same \<^verbatim>\<open>try\<close>; it does not
  change the value the provider holds and is left out.
\<close>

definition setLayouts ::
  "'c DashboardLayout list \<Rightarrow> ('c DashboardLayout list \<Rightarrow> error + 'c DashboardLayout list)
     \<Rightarrow> 'c DashboardState \<Rightarrow> 'c DashboardState" where
  "setLayouts storedValue val s =
     (case val storedValue of
        Inl e \<Rightarrow> s\<lparr>console := console s @ [e]\<rparr>
      | Inr valueToStore \<Rightarrow> s\<lparr>layouts := valueToStore\<rparr>)"

definition setCurrentLayoutId :: "string \<Rightarrow> 'c DashboardState \<Rightarrow> 'c DashboardState" where
  "setCurrentLayoutId val s = s\<lparr>currentLayoutId := val\<rparr>"

text \<open>\<^verbatim>\<open>Array.prototype.map\<close> with a callback that may throw: elements are visited from
  left to right and the first throw leaves the map.\<close>

fun mapE :: "('a \<Rightarrow> error + 'b) \<Rightarrow> 'a list \<Rightarrow> error + 'b list" where
  "mapE f [] = Inr []"
| "mapE f (a # as) =
     (case f a of
        Inl e \<Rightarrow> Inl e
      | Inr b \<Rightarrow> (case mapE f as of Inl e \<Rightarrow> Inl e | Inr bs \<Rightarrow> Inr (b # bs)))"

text \<open>
  Every operation below is a callback of one render. Its argument \<open>r\<close> is the state of
  that render: the closure reads \<open>layouts r\<close> (through \<open>storedValue\<close>) and
  \<open>currentLayoutId r\<close>. The result is the state after the event handler has run.
  \<open>createLayoutIn r\<close> is the body of \<^verbatim>\<open>createLayout\<close> of render \<open>r\<close> run on a state \<open>s\<close>
  that earlier setter calls of the same handler may already have changed.
\<close>

definition createLayoutIn ::
  "'c DashboardState \<Rightarrow> nat \<Rightarrow> string \<Rightarrow> 'c DashboardState
     \<Rightarrow> 'c DashboardLayout \<times> 'c DashboardState" where
  "createLayoutIn r now name s =
     (let newLayout = \<lparr>dl_id = ''layout-'' @ decimal now, dl_name = name, dl_widgets = [],
                        dl_createdAt = now, dl_updatedAt = now\<rparr>
      in (newLayout,
          setCurrentLayoutId (dl_id newLayout)
            (setLayouts (layouts r) (\<lambda>prevLayouts. Inr (prevLayouts @ [newLayout])) s)))"

definition createLayout ::
  "nat \<Rightarrow> string \<Rightarrow> 'c DashboardState \<Rightarrow> 'c DashboardLayout \<times> 'c DashboardState" where
  "createLayout now name r = createLayoutIn r now name r"

text \<open>
  \<^verbatim>\<open>deleteLayout\<close>. The updater given to \<^verbatim>\<open>setLayouts\<close> computes the filtered list,
  calls \<^verbatim>\<open>setCurrentLayoutId\<close> itself and returns the list; it does not throw.
\<close>

definition deleteLayout :: "string \<Rightarrow> 'c DashboardState \<Rightarrow> 'c DashboardState" where
  "deleteLayout layoutId r =
     (let updatedLayouts = filter (\<lambda>layout. dl_id layout \<noteq> layoutId) (layouts r);
          s = (if layoutId = currentLayoutId r \<and> length updatedLayouts > 0
               then setCurrentLayoutId (dl_id (updatedLayouts ! 0)) r
               else if length updatedLayouts = 0 then setCurrentLayoutId [] r
               else r)
      in setLayouts (layouts r) (\<lambda>prevLayouts. Inr updatedLayouts) s)"

text \<open>The callback that \<^verbatim>\<open>addWidget\<close> maps over the layouts, on a layout whose id is
  the active id.\<close>

definition addWidgetToLayout ::
  "WidgetRegistry \<Rightarrow> nat \<Rightarrow> string \<Rightarrow> string option \<Rightarrow> 'c option \<Rightarrow> 'c DashboardLayout
     \<Rightarrow> error + 'c DashboardLayout" where
  "addWidgetToLayout registry now widgetId title config layout =
     (let instanceId = ''widget-'' @ widgetId @ ''-'' @ decimal now in
      case createWidgetInstance registry widgetId instanceId title config None of
        Inl e \<Rightarrow> Inl e
      | Inr None \<Rightarrow> Inl (Error (''Widget with ID '' @ widgetId @ '' not found in registry''))
      | Inr (Some widgetInstance) \<Rightarrow>
          (case DEFAULT_WIDGET_DIMENSIONS (wg_size widgetInstance) of
             (width, height) \<Rightarrow>
               (case findAvailablePosition (dl_widgets layout) width height of
                  Inl e \<Rightarrow> Inl e
                | Inr position \<Rightarrow>
                    Inr (layout\<lparr>dl_widgets := dl_widgets layout @
                                   [\<lparr>wi_id = instanceId, wi_widgetId = widgetId,
                                     wi_title = orElse title (wg_title widgetInstance),
                                     wi_position = position,
                                     wi_size = wg_size widgetInstance,
                                     wi_config = config\<rparr>],
                                 dl_updatedAt := now\<rparr>))))"

text \<open>
  \<^verbatim>\<open>addWidget\<close>. Without a current layout it first calls \<^verbatim>\<open>createLayout\<close> and sets
  the active id. The second \<^verbatim>\<open>setLayouts\<close> call belongs to the same render \<open>r\<close>: its
  updater is applied to \<open>layouts r\<close> and compares layout ids with \<open>currentLayoutId r\<close>.
\<close>

definition addWidget ::
  "WidgetRegistry \<Rightarrow> nat \<Rightarrow> string \<Rightarrow> string option \<Rightarrow> 'c option \<Rightarrow> 'c DashboardState
     \<Rightarrow> 'c DashboardState" where
  "addWidget registry now widgetId title config r =
     (let s = (if currentLayout r = None
               then (case createLayoutIn r now ''Default Layout'' r of
                       (newLayout, s') \<Rightarrow> setCurrentLayoutId (dl_id newLayout) s')
               else r)
      in setLayouts (layouts r)
           (mapE (\<lambda>layout. if dl_id layout \<noteq> currentLayoutId r then Inr layout
                            else addWidgetToLayout registry now widgetId title config layout))
           s)"

definition removeWidget :: "nat \<Rightarrow> string \<Rightarrow> 'c DashboardState \<Rightarrow> 'c DashboardState" where
  "removeWidget now instanceId r =
     setLayouts (layouts r)
       (\<lambda>prevLayouts. Inr (map (\<lambda>layout.
            if dl_id layout \<noteq> currentLayoutId r then layout
            else layout\<lparr>dl_widgets := filter (\<lambda>widget. wi_id widget \<noteq> instanceId) (dl_widgets layout),
                        dl_updatedAt := now\<rparr>) prevLayouts))
       r"

text \<open>\<^verbatim>\<open>Partial<WidgetInstance>\<close>: every property may be absent (\<open>None\<close>). The optional
  \<^verbatim>\<open>config\<close> may also be present with the value \<^verbatim>\<open>undefined\<close> (\<open>Some None\<close>).
  \<open>applyUpdates\<close> is the spread \<^verbatim>\<open>{ ...widget, ...updates }\<close>.\<close>

record 'c WidgetInstanceUpdates =
  up_id :: "string option"
  up_widgetId :: "string option"
  up_title :: "string option"
  up_position :: "Position option"
  up_size :: "WidgetSize option"
  up_config :: "'c option option"

definition applyUpdates :: "'c WidgetInstance \<Rightarrow> 'c WidgetInstanceUpdates \<Rightarrow> 'c WidgetInstance" where
  "applyUpdates widget updates =
     \<lparr>wi_id = (case up_id updates of None \<Rightarrow> wi_id widget | Some v \<Rightarrow> v),
      wi_widgetId = (case up_widgetId updates of None \<Rightarrow> wi_widgetId widget | Some v \<Rightarrow> v),
      wi_title = (case up_title updates of None \<Rightarrow> wi_title widget | Some v \<Rightarrow> v),
      wi_position = (case up_position updates of None \<Rightarrow> wi_position widget | Some v \<Rightarrow> v),
      wi_size = (case up_size updates of None \<Rightarrow> wi_size widget | Some v \<Rightarrow> v),
      wi_config = (case up_config updates of None \<Rightarrow> wi_config widget | Some v \<Rightarrow> v)\<rparr>"

definition updateWidget ::
  "nat \<Rightarrow> string \<Rightarrow> 'c WidgetInstanceUpdates \<Rightarrow> 'c DashboardState \<Rightarrow> 'c DashboardState" where
  "updateWidget now instanceId updates r =
     setLayouts (layouts r)
       (\<lambda>prevLayouts. Inr (map (\<lambda>layout.
            if dl_id layout \<noteq> currentLayoutId r then layout
            else layout\<lparr>dl_widgets := map (\<lambda>widget. if wi_id widget \<noteq> instanceId then widget
                                                     else applyUpdates widget updates)
                                          (dl_widgets layout),
                        dl_updatedAt := now\<rparr>) prevLayouts))
       r"

definition updateWidgetPositions ::
  "nat \<Rightarrow> (string \<times> Position) list \<Rightarrow> 'c DashboardState \<Rightarrow> 'c DashboardState" where
  "updateWidgetPositions now updates r =
     setLayouts (layouts r)
       (\<lambda>prevLayouts. Inr (map (\<lambda>layout.
            if dl_id layout \<noteq> currentLayoutId r then layout
            else layout\<lparr>dl_widgets := map (\<lambda>widget.
                                            case List.find (\<lambda>u. fst u = wi_id widget) updates of
                                              None \<Rightarrow> widget
                                            | Some update \<Rightarrow> widget\<lparr>wi_position := snd update\<rparr>)
                                          (dl_widgets layout),
                        dl_updatedAt := now\<rparr>) prevLayouts))
       r"

section \<open>Reading the store\<close>

text \<open>
  A value handled by \<^verbatim>\<open>useLocalStorage<T>\<close>: \<^verbatim>\<open>undefined\<close>, a string (what the store
  holds when \<^verbatim>\<open>parseJson\<close> is off), or a value of \<open>'a\<close>. \<open>getItem\<close> is
  \<^verbatim>\<open>window.localStorage.getItem\<close>: it answers \<open>None\<close> (\<^verbatim>\<open>null\<close>) for a key that was
  never written and may throw. \<open>deserializer\<close> is the option of that name, by default
  \<^verbatim>\<open>JSON.parse\<close>, which throws on text that is not JSON.
\<close>

datatype 'a stored = Undefined | Str string | Val 'a

text \<open>The \<^verbatim>\<open>try\<close> block of \<^verbatim>\<open>getStoredValue\<close>.\<close>

definition getStoredValueTry ::
  "(string \<Rightarrow> error + string option) \<Rightarrow> string \<Rightarrow> bool \<Rightarrow> 'a stored
     \<Rightarrow> (string \<Rightarrow> error + 'a stored) \<Rightarrow> error + 'a stored" where
  "getStoredValueTry getItem key parseJson defaultValue deserializer =
     (case getItem key of
        Inl e \<Rightarrow> Inl e
      | Inr item \<Rightarrow>
          (case item of
             None \<Rightarrow> Inr defaultValue
           | Some text \<Rightarrow>
               if text \<noteq> [] then (if parseJson then deserializer text else Inr (Str text))
               else Inr defaultValue))"

text \<open>\<^verbatim>\<open>getStoredValue\<close>: the \<^verbatim>\<open>catch\<close> logs and returns the default.\<close>

definition getStoredValue ::
  "(string \<Rightarrow> error + string option) \<Rightarrow> string \<Rightarrow> bool \<Rightarrow> 'a stored
     \<Rightarrow> (string \<Rightarrow> error + 'a stored) \<Rightarrow> 'a stored" where
  "getStoredValue getItem key parseJson defaultValue deserializer =
     (case getStoredValueTry getItem key parseJson defaultValue deserializer of
        Inl e \<Rightarrow> defaultValue
      | Inr v \<Rightarrow> v)"

section \<open>Widget configuration\<close>

text \<open>\<^verbatim>\<open>WidgetConfigData\<close>; the \<^verbatim>\<open>settings\<close> object is a map from property names to
  values.\<close>

record 'v WidgetConfigData =
  cd_widgetId :: string
  cd_instanceId :: string
  cd_settings :: "string \<rightharpoonup> 'v"
  cd_version :: string
  cd_updatedAt :: nat

text \<open>The argument of \<^verbatim>\<open>updateConfig\<close>: a settings object, or a function from the
  previous settings to the new ones.\<close>

datatype 'v ConfigUpdate =
    NewConfig "string \<rightharpoonup> 'v"
  | Updater "(string \<rightharpoonup> 'v) \<Rightarrow> (string \<rightharpoonup> 'v)"

text \<open>\<^verbatim>\<open>configData?.settings || initialConfig || defaultConfig\<close>; an object is truthy.\<close>

definition config ::
  "'v WidgetConfigData option \<Rightarrow> (string \<rightharpoonup> 'v) option \<Rightarrow> (string \<rightharpoonup> 'v) \<Rightarrow> (string \<rightharpoonup> 'v)" where
  "config configData initialConfig defaultConfig =
     (case configData of
        Some d \<Rightarrow> cd_settings d
      | None \<Rightarrow> (case initialConfig of Some c \<Rightarrow> c | None \<Rightarrow> defaultConfig))"

text \<open>\<^verbatim>\<open>updateConfig\<close>: the updater given to \<^verbatim>\<open>setConfigData\<close>, applied to the stored
  \<^verbatim>\<open>configData\<close>; the result is the stored value after the call.\<close>

definition updateConfig ::
  "nat \<Rightarrow> string \<Rightarrow> string \<Rightarrow> (string \<rightharpoonup> 'v) option \<Rightarrow> (string \<rightharpoonup> 'v) \<Rightarrow> 'v ConfigUpdate
     \<Rightarrow> 'v WidgetConfigData option \<Rightarrow> 'v WidgetConfigData option" where
  "updateConfig now widgetId instanceId initialConfig defaultConfig newConfig currentData =
     (case currentData of
        None \<Rightarrow>
          Some \<lparr>cd_widgetId = widgetId, cd_instanceId = instanceId,
                cd_settings = (case newConfig of
                                 Updater f \<Rightarrow> f (case initialConfig of Some c \<Rightarrow> c | None \<Rightarrow> defaultConfig)
                               | NewConfig c \<Rightarrow> c),
                cd_version = ''1.0.0'', cd_updatedAt = now\<rparr>
      | Some d \<Rightarrow>
          Some (d\<lparr>cd_settings := (case newConfig of
                                     Updater f \<Rightarrow> f (cd_settings d)
                                   | NewConfig c \<Rightarrow> c),
                  cd_updatedAt := now\<rparr>))"

definition setConfigProperty ::
  "nat \<Rightarrow> string \<Rightarrow> string \<Rightarrow> (string \<rightharpoonup> 'v) option \<Rightarrow> (string \<rightharpoonup> 'v) \<Rightarrow> string \<Rightarrow> 'v
     \<Rightarrow> 'v WidgetConfigData option \<Rightarrow> 'v WidgetConfigData option" where
  "setConfigProperty now widgetId instanceId initialConfig defaultConfig property val =
     updateConfig now widgetId instanceId initialConfig defaultConfig
       (Updater (\<lambda>currentConfig. currentConfig(property \<mapsto> val)))"

section \<open>Notions the properties are stated with\<close>

text \<open>The cell in column \<open>j\<close> and row \<open>i\<close> lies in the rectangle of a widget instance:
  columns \<open>x .. x + w - 1\<close>, rows \<open>y .. y + h - 1\<close>.\<close>

definition covers :: "'c WidgetInstance \<Rightarrow> int \<Rightarrow> int \<Rightarrow> bool" where
  "covers widget j i =
     (pos_x (wi_position widget) \<le> j \<and> j < pos_x (wi_position widget) + pos_w (wi_position widget) \<and>
      pos_y (wi_position widget) \<le> i \<and> i < pos_y (wi_position widget) + pos_h (wi_position widget))"

text \<open>The \<open>width\<close> by \<open>height\<close> rectangle with top-left cell \<open>(x, y)\<close> is entirely
  unoccupied within the grid: each of its cells is a cell of the 4 by 10 grid and no
  existing instance covers it. This is the property the placement is specified by; it
  speaks of the instances' rectangles, not of the array the code fills.\<close>

definition unoccupied :: "'c WidgetInstance list \<Rightarrow> int \<Rightarrow> int \<Rightarrow> int \<Rightarrow> int \<Rightarrow> bool" where
  "unoccupied widgets x y width height =
     list_all (\<lambda>i. list_all (\<lambda>j. i < gridHeight \<and> j < gridWidth \<and>
                                    list_all (\<lambda>widget. \<not> covers widget j i) widgets)
                       [x .. x + width - 1])
       [y .. y + height - 1]"

text \<open>The shape of the array, ten rows of four cells, and the indices of its cells.\<close>

definition wfGrid :: "grid \<Rightarrow> bool" where
  "wfGrid g = (length g = 10 \<and> (\<forall>k < 10. length (g ! k) = 4))"

definition inGrid :: "int \<Rightarrow> int \<Rightarrow> bool" where
  "inGrid i j = (0 \<le> i \<and> i < 10 \<and> 0 \<le> j \<and> j < 4)"

text \<open>The top-left cells the scan visits: \<open>y\<close> from 0 below \<open>gridHeight\<close>, \<open>x\<close> from 0
  to \<open>gridWidth - width\<close> inclusive; and the order of the visit, row by row from the
  top and from left to right within a row.\<close>

definition scanned :: "int \<Rightarrow> int \<Rightarrow> int \<Rightarrow> bool" where
  "scanned width x y = (0 \<le> y \<and> y < gridHeight \<and> 0 \<le> x \<and> x \<le> gridWidth - width)"

definition before :: "int \<times> int \<Rightarrow> int \<times> int \<Rightarrow> bool" where
  "before a b = (snd a < snd b \<or> (snd a = snd b \<and> fst a < fst b))"

text \<open>
  An instance of the data model: its position is a zero-based cell, its footprint a
  number of cells, and the cells it reaches are safe integers, so that the loops over
  its rows and columns compute exactly.
\<close>

definition MAX_SAFE_INTEGER :: int where
  "MAX_SAFE_INTEGER = 9007199254740991"

definition gridCells :: "'c WidgetInstance \<Rightarrow> bool" where
  "gridCells widget =
     (0 \<le> pos_x (wi_position widget) \<and> 0 \<le> pos_y (wi_position widget) \<and>
      0 \<le> pos_w (wi_position widget) \<and> 0 \<le> pos_h (wi_position widget) \<and>
      pos_x (wi_position widget) + pos_w (wi_position widget) \<le> MAX_SAFE_INTEGER \<and>
      pos_y (wi_position widget) + pos_h (wi_position widget) \<le> MAX_SAFE_INTEGER)"

text \<open>What the marking loops of the embedding need in order not to throw: no existing
  instance starts above row 0.\<close>

definition rowsFromZero :: "'c WidgetInstance list \<Rightarrow> bool" where
  "rowsFromZero widgets = list_all (\<lambda>widget. 0 \<le> pos_y (wi_position widget)) widgets"

text \<open>A widget instance of the registry's \<^verbatim>\<open>status-widget\<close> with a given id and position,
  for stating concrete cases.\<close>

definition instanceAt :: "string \<Rightarrow> Position \<Rightarrow> unit WidgetInstance" where
  "instanceAt name p =
     \<lparr>wi_id = name, wi_widgetId = ''status-widget'', wi_title = ''Status Widget'',
      wi_position = p, wi_size = Small, wi_config = None\<rparr>"

text \<open>Layouts and dashboard states for stating concrete cases.\<close>

definition emptyLayout :: "string \<Rightarrow> string \<Rightarrow> unit DashboardLayout" where
  "emptyLayout ident name =
     \<lparr>dl_id = ident, dl_name = name, dl_widgets = [], dl_createdAt = 0, dl_updatedAt = 0\<rparr>"

definition layoutWith :: "string \<Rightarrow> string \<Rightarrow> unit WidgetInstance list \<Rightarrow> unit DashboardLayout" where
  "layoutWith ident name widgets =
     \<lparr>dl_id = ident, dl_name = name, dl_widgets = widgets, dl_createdAt = 0, dl_updatedAt = 0\<rparr>"

definition dashboard :: "unit DashboardLayout list \<Rightarrow> string \<Rightarrow> unit DashboardState" where
  "dashboard ls active = \<lparr>layouts = ls, currentLayoutId = active, console = []\<rparr>"

definition storedConfig :: "(string \<rightharpoonup> nat) \<Rightarrow> nat WidgetConfigData" where
  "storedConfig settings =
     \<lparr>cd_widgetId = ''status-widget'', cd_instanceId = ''widget-a'', cd_settings = settings,
      cd_version = ''1.0.0'', cd_updatedAt = 0\<rparr>"

text \<open>The frame of the widget operations: the layout list of \<open>s\<close> has the layouts of \<open>r\<close>
  at the same places, except possibly where the layout's id is the active id of \<open>r\<close>.\<close>

definition unchangedOutsideActive :: "'c DashboardState \<Rightarrow> 'c DashboardState \<Rightarrow> bool" where
  "unchangedOutsideActive r s =
     list_all2 (\<lambda>layout layout'. dl_id layout \<noteq> currentLayoutId r \<longrightarrow> layout' = layout)
       (layouts r) (layouts s)"

text \<open>Two rectangles intersect when they have a cell in common. A list of rectangles
  has no overlap when no two of its members intersect.\<close>

definition rectsIntersect :: "Position \<Rightarrow> Position \<Rightarrow> bool" where
  "rectsIntersect p q =
     (max (pos_x p) (pos_x q) < min (pos_x p + pos_w p) (pos_x q + pos_w q) \<and>
      max (pos_y p) (pos_y q) < min (pos_y p + pos_h p) (pos_y q + pos_h q))"

primrec noOverlap :: "Position list \<Rightarrow> bool" where
  "noOverlap [] = True"
| "noOverlap (p # ps) = (list_all (\<lambda>q. \<not> rectsIntersect p q) ps \<and> noOverlap ps)"

text \<open>The shapes of the positions \<open>findAvailablePosition\<close> returns for a footprint of at
  least one cell: a rectangle inside the 4 by 10 grid, or a rectangle at the fallback
  position. \<open>placedByAddWidget\<close> holds of a layout whose instances all have such positions
  and intersect only where both sit at the fallback position.\<close>

definition atFallback :: "Position \<Rightarrow> bool" where
  "atFallback p = (pos_x p = 0 \<and> pos_y p = gridHeight)"

definition insideGrid :: "Position \<Rightarrow> bool" where
  "insideGrid p =
     (0 \<le> pos_x p \<and> 0 \<le> pos_y p \<and> 1 \<le> pos_w p \<and> 1 \<le> pos_h p \<and>
      pos_x p + pos_w p \<le> gridWidth \<and> pos_y p + pos_h p \<le> gridHeight)"

primrec overlapOnlyAtFallback :: "Position list \<Rightarrow> bool" where
  "overlapOnlyAtFallback [] = True"
| "overlapOnlyAtFallback (p # ps) =
     (list_all (\<lambda>q. rectsIntersect p q \<longrightarrow> atFallback p \<and> atFallback q) ps \<and>
      overlapOnlyAtFallback ps)"

definition placedByAddWidget :: "'c DashboardLayout \<Rightarrow> bool" where
  "placedByAddWidget layout =
     (list_all (\<lambda>p. insideGrid p \<or> atFallback p) (map wi_position (dl_widgets layout)) \<and>
      overlapOnlyAtFallback (map wi_position (dl_widgets layout)))"

text \<open>A sequence of \<open>addWidget\<close> calls, each made by the render that follows the previous
  call: the calls give the clock reading, the widget id, the title and the configuration.
  \<open>repeatedAdds widgetId n\<close> is \<open>n\<close> calls for one widget id at the clock readings
  \<open>1, ..., n\<close>.\<close>

fun addWidgets ::
  "WidgetRegistry \<Rightarrow> (nat \<times> string \<times> string option \<times> 'c option) list \<Rightarrow> 'c DashboardState
     \<Rightarrow> 'c DashboardState" where
  "addWidgets registry [] r = r"
| "addWidgets registry ((now, widgetId, title, cfg) # calls) r =
     addWidgets registry calls (addWidget registry now widgetId title cfg r)"

definition repeatedAdds :: "string \<Rightarrow> nat \<Rightarrow> (nat \<times> string \<times> string option \<times> unit option) list" where
  "repeatedAdds widgetId n = map (\<lambda>now. (now, widgetId, None, None)) [1 ..< Suc n]"

section \<open>The grid after marking\<close>

lemma wfGrid_emptyGrid: "wfGrid emptyGrid"
  by (simp add: wfGrid_def emptyGrid_def gridHeight_def gridWidth_def)

lemma emptyGrid_unmarked:
  assumes "inGrid i j"
  shows "\<not> emptyGrid ! nat i ! nat j"
proof -
  have "nat i < 10" "nat j < 4" using assms by (auto simp: inGrid_def)
  then show ?thesis by (simp add: emptyGrid_def gridHeight_def gridWidth_def)
qed

lemma markCell_spec:
  assumes "0 \<le> i" "wfGrid g"
  shows "\<exists>g'. markCell i j g = Inr g' \<and> wfGrid g' \<and>
           (\<forall>i' j'. inGrid i' j' \<longrightarrow> g' ! nat i' ! nat j' = (g ! nat i' ! nat j' \<or> (i' = i \<and> j' = j)))"
proof -
  consider (out) "\<not> (i < gridHeight \<and> j < gridWidth)" | (neg) "i < gridHeight" "j < gridWidth" "j < 0"
    | (cell) "i < gridHeight" "j < gridWidth" "0 \<le> j"
    by linarith
  then show ?thesis
  proof cases
    case out
    then have "markCell i j g = Inr g" by (auto simp: markCell_def)
    moreover have "\<forall>i' j'. inGrid i' j' \<longrightarrow> \<not> (i' = i \<and> j' = j)"
      using out by (auto simp: inGrid_def gridHeight_def gridWidth_def)
    ultimately show ?thesis using assms by auto
  next
    case neg
    then have "markCell i j g = Inr g" using assms by (auto simp: markCell_def)
    moreover have "\<forall>i' j'. inGrid i' j' \<longrightarrow> \<not> (i' = i \<and> j' = j)"
      using neg by (auto simp: inGrid_def)
    ultimately show ?thesis using assms by auto
  next
    case cell
    let ?g' = "g[nat i := (g ! nat i)[nat j := True]]"
    have m: "markCell i j g = Inr ?g'" using cell assms by (auto simp: markCell_def)
    have ni: "nat i < 10" and nj: "nat j < 4" using cell assms by (auto simp: gridHeight_def gridWidth_def)
    have wf: "wfGrid ?g'" using assms(2) ni by (auto simp: wfGrid_def nth_list_update)
    have "g' ! nat i' ! nat j' = (g ! nat i' ! nat j' \<or> (i' = i \<and> j' = j))"
      if "inGrid i' j'" and "g' = ?g'" for i' j' g'
    proof -
      have a: "nat i' < 10" "nat j' < 4" "0 \<le> i'" "0 \<le> j'" using that by (auto simp: inGrid_def)
      have e1: "(nat i' = nat i) = (i' = i)" using a assms(1) by auto
      have e2: "(nat j' = nat j) = (j' = j)" using a cell by auto
      have l: "length g = 10" "length (g ! nat i) = 4" using assms(2) ni by (auto simp: wfGrid_def)
      show ?thesis using a l ni nj e1 e2 that(2) by (auto simp: nth_list_update)
    qed
    then show ?thesis using m wf by blast
  qed
qed

lemma markCols_spec:
  assumes "0 \<le> i"
  shows "wfGrid g \<Longrightarrow> \<exists>g'. foldE (\<lambda>j. markCell i j) js g = Inr g' \<and> wfGrid g' \<and>
           (\<forall>i' j'. inGrid i' j' \<longrightarrow> g' ! nat i' ! nat j' = (g ! nat i' ! nat j' \<or> (i' = i \<and> j' \<in> set js)))"
proof (induction js arbitrary: g)
  case Nil
  then show ?case by simp
next
  case (Cons j js)
  from markCell_spec[OF assms Cons.prems, of j] obtain g1 where
    g1: "markCell i j g = Inr g1" "wfGrid g1"
      "\<forall>i' j'. inGrid i' j' \<longrightarrow> g1 ! nat i' ! nat j' = (g ! nat i' ! nat j' \<or> (i' = i \<and> j' = j))"
    by blast
  from Cons.IH[OF g1(2)] obtain g2 where
    g2: "foldE (\<lambda>j. markCell i j) js g1 = Inr g2" "wfGrid g2"
      "\<forall>i' j'. inGrid i' j' \<longrightarrow> g2 ! nat i' ! nat j' = (g1 ! nat i' ! nat j' \<or> (i' = i \<and> j' \<in> set js))"
    by blast
  have "foldE (\<lambda>j. markCell i j) (j # js) g = Inr g2" using g1(1) g2(1) by simp
  moreover have "\<forall>i' j'. inGrid i' j' \<longrightarrow>
      g2 ! nat i' ! nat j' = (g ! nat i' ! nat j' \<or> (i' = i \<and> j' \<in> set (j # js)))"
    using g1(3) g2(3) by auto
  ultimately show ?case using g2(2) by blast
qed

lemma markRows_spec:
  "\<forall>i \<in> set rows. 0 \<le> i \<Longrightarrow> wfGrid g \<Longrightarrow>
     \<exists>g'. foldE (\<lambda>i. foldE (\<lambda>j. markCell i j) js) rows g = Inr g' \<and> wfGrid g' \<and>
           (\<forall>i' j'. inGrid i' j' \<longrightarrow> g' ! nat i' ! nat j' = (g ! nat i' ! nat j' \<or> (i' \<in> set rows \<and> j' \<in> set js)))"
proof (induction rows arbitrary: g)
  case Nil
  then show ?case by simp
next
  case (Cons i rows)
  have i0: "0 \<le> i" using Cons.prems(1) by simp
  from markCols_spec[OF i0 Cons.prems(2), of js] obtain g1 where
    g1: "foldE (\<lambda>j. markCell i j) js g = Inr g1" "wfGrid g1"
      "\<forall>i' j'. inGrid i' j' \<longrightarrow> g1 ! nat i' ! nat j' = (g ! nat i' ! nat j' \<or> (i' = i \<and> j' \<in> set js))"
    by blast
  have r: "\<forall>i \<in> set rows. 0 \<le> i" using Cons.prems(1) by simp
  from Cons.IH[OF r g1(2)] obtain g2 where
    g2: "foldE (\<lambda>i. foldE (\<lambda>j. markCell i j) js) rows g1 = Inr g2" "wfGrid g2"
      "\<forall>i' j'. inGrid i' j' \<longrightarrow> g2 ! nat i' ! nat j' = (g1 ! nat i' ! nat j' \<or> (i' \<in> set rows \<and> j' \<in> set js))"
    by blast
  have "foldE (\<lambda>i. foldE (\<lambda>j. markCell i j) js) (i # rows) g = Inr g2" using g1(1) g2(1) by simp
  moreover have "\<forall>i' j'. inGrid i' j' \<longrightarrow>
      g2 ! nat i' ! nat j' = (g ! nat i' ! nat j' \<or> (i' \<in> set (i # rows) \<and> j' \<in> set js))"
    using g1(3) g2(3) by auto
  ultimately show ?case using g2(2) by blast
qed

lemma markWidget_spec:
  assumes "0 \<le> pos_y (wi_position widget)" "wfGrid g"
  shows "\<exists>g'. markWidget widget g = Inr g' \<and> wfGrid g' \<and>
           (\<forall>i j. inGrid i j \<longrightarrow> g' ! nat i ! nat j = (g ! nat i ! nat j \<or> covers widget j i))"
proof -
  let ?p = "wi_position widget"
  have "\<forall>i \<in> set [pos_y ?p .. pos_y ?p + pos_h ?p - 1]. 0 \<le> i" using assms(1) by auto
  from markRows_spec[OF this assms(2), of "[pos_x ?p .. pos_x ?p + pos_w ?p - 1]"]
  show ?thesis by (auto simp: markWidget_def Let_def covers_def)
qed

lemma markAll_spec:
  "\<forall>widget \<in> set widgets. 0 \<le> pos_y (wi_position widget) \<Longrightarrow> wfGrid g \<Longrightarrow>
     \<exists>g'. foldE markWidget widgets g = Inr g' \<and> wfGrid g' \<and>
           (\<forall>i j. inGrid i j \<longrightarrow> g' ! nat i ! nat j = (g ! nat i ! nat j \<or> (\<exists>widget \<in> set widgets. covers widget j i)))"
proof (induction widgets arbitrary: g)
  case Nil
  then show ?case by simp
next
  case (Cons a widgets)
  have a0: "0 \<le> pos_y (wi_position a)" using Cons.prems(1) by simp
  from markWidget_spec[OF a0 Cons.prems(2)] obtain g1 where
    g1: "markWidget a g = Inr g1" "wfGrid g1"
      "\<forall>i j. inGrid i j \<longrightarrow> g1 ! nat i ! nat j = (g ! nat i ! nat j \<or> covers a j i)"
    by blast
  have r: "\<forall>widget \<in> set widgets. 0 \<le> pos_y (wi_position widget)" using Cons.prems(1) by simp
  from Cons.IH[OF r g1(2)] obtain g2 where
    g2: "foldE markWidget widgets g1 = Inr g2" "wfGrid g2"
      "\<forall>i j. inGrid i j \<longrightarrow> g2 ! nat i ! nat j = (g1 ! nat i ! nat j \<or> (\<exists>widget \<in> set widgets. covers widget j i))"
    by blast
  have "foldE markWidget (a # widgets) g = Inr g2" using g1(1) g2(1) by simp
  moreover have "\<forall>i j. inGrid i j \<longrightarrow>
      g2 ! nat i ! nat j = (g ! nat i ! nat j \<or> (\<exists>widget \<in> set (a # widgets). covers widget j i))"
    using g1(3) g2(3) by auto
  ultimately show ?case using g2(2) by blast
qed

lemma markOccupied_spec:
  assumes "\<forall>widget \<in> set widgets. 0 \<le> pos_y (wi_position widget)"
  shows "\<exists>g. markOccupied widgets = Inr g \<and>
           (\<forall>i j. inGrid i j \<longrightarrow> g ! nat i ! nat j = (\<exists>widget \<in> set widgets. covers widget j i))"
  using markAll_spec[OF assms wfGrid_emptyGrid] emptyGrid_unmarked
  by (auto simp: markOccupied_def)

lemma canFit_unoccupied:
  assumes g: "\<forall>i j. inGrid i j \<longrightarrow> g ! nat i ! nat j = (\<exists>widget \<in> set widgets. covers widget j i)"
    and "0 \<le> x" "0 \<le> y"
  shows "canFit g x y width height = unoccupied widgets x y width height"
proof -
  have "(\<not> (i \<ge> gridHeight \<or> j \<ge> gridWidth \<or> g ! nat i ! nat j)) =
        (i < gridHeight \<and> j < gridWidth \<and> list_all (\<lambda>widget. \<not> covers widget j i) widgets)"
    if "y \<le> i" "x \<le> j" for i j
  proof (cases "i < gridHeight \<and> j < gridWidth")
    case True
    then have "inGrid i j" using that assms(2,3) by (auto simp: inGrid_def gridHeight_def gridWidth_def)
    then show ?thesis using g True by (auto simp: list_all_iff)
  next
    case False
    then show ?thesis by auto
  qed
  then show ?thesis
    unfolding canFit_def unoccupied_def list_all_iff by auto
qed

lemma find_first_sorted:
  "sorted_wrt lt xs \<Longrightarrow> a \<in> set xs \<Longrightarrow> P a \<Longrightarrow> \<forall>b \<in> set xs. lt b a \<longrightarrow> \<not> P b
     \<Longrightarrow> List.find P xs = Some a"
proof (induction xs)
  case Nil
  then show ?case by simp
next
  case (Cons c cs)
  show ?case
  proof (cases "c = a")
    case True
    then show ?thesis using Cons.prems(3) by simp
  next
    case False
    then have a: "a \<in> set cs" using Cons.prems(2) by simp
    then have "lt c a" using Cons.prems(1) by simp
    then have "\<not> P c" using Cons.prems(4) by simp
    moreover have "List.find P cs = Some a"
      using Cons.IH a Cons.prems by simp
    ultimately show ?thesis by simp
  qed
qed

lemma sorted_rows:
  "sorted_wrt (<) ys \<Longrightarrow> sorted_wrt (<) xs \<Longrightarrow>
     sorted_wrt before (concat (map (\<lambda>y. map (\<lambda>x. (x, y)) xs) ys))"
proof (induction ys)
  case Nil
  then show ?case by simp
next
  case (Cons y ys)
  have "sorted_wrt before (map (\<lambda>x. (x, y)) xs)"
    using Cons.prems(2) by (simp add: sorted_wrt_map before_def)
  moreover have "sorted_wrt before (concat (map (\<lambda>y. map (\<lambda>x. (x, y)) xs) ys))"
    using Cons by simp
  moreover have "\<forall>a \<in> set (map (\<lambda>x. (x, y)) xs).
      \<forall>b \<in> set (concat (map (\<lambda>y. map (\<lambda>x. (x, y)) xs) ys)). before a b"
    using Cons.prems(1) by (auto simp: before_def)
  ultimately show ?case by (simp add: sorted_wrt_append)
qed

lemma sorted_candidates: "sorted_wrt before (candidates width)"
  unfolding candidates_def by (rule sorted_rows) simp_all

lemma set_candidates: "(x, y) \<in> set (candidates width) \<longleftrightarrow> scanned width x y"
proof -
  have "set (candidates width) = {(x, y). 0 \<le> y \<and> y \<le> gridHeight - 1 \<and> 0 \<le> x \<and> x \<le> gridWidth - width}"
    by (auto simp: candidates_def)
  then show ?thesis by (auto simp: scanned_def)
qed

lemma candidates_nonneg: "(x, y) \<in> set (candidates width) \<Longrightarrow> 0 \<le> x \<and> 0 \<le> y"
  by (auto simp: candidates_def)

lemma findAvailablePosition_scan:
  assumes "\<forall>widget \<in> set widgets. 0 \<le> pos_y (wi_position widget)"
  shows "findAvailablePosition widgets width height =
     Inr (case List.find (\<lambda>(x, y). unoccupied widgets x y width height) (candidates width) of
            Some (x, y) \<Rightarrow> \<lparr>pos_x = x, pos_y = y, pos_w = width, pos_h = height\<rparr>
          | None \<Rightarrow> \<lparr>pos_x = 0, pos_y = gridHeight, pos_w = width, pos_h = height\<rparr>)"
proof -
  from markOccupied_spec[OF assms] obtain g where
    g: "markOccupied widgets = Inr g"
       "\<forall>i j. inGrid i j \<longrightarrow> g ! nat i ! nat j = (\<exists>widget \<in> set widgets. covers widget j i)"
    by blast
  have "List.find (\<lambda>(x, y). canFit g x y width height) (candidates width) =
        List.find (\<lambda>(x, y). unoccupied widgets x y width height) (candidates width)"
  proof (rule find_cong[OF refl])
    fix c assume "c \<in> set (candidates width)"
    then have "0 \<le> fst c \<and> 0 \<le> snd c" using candidates_nonneg[of "fst c" "snd c" width] by simp
    then show "(case c of (x, y) \<Rightarrow> canFit g x y width height) =
               (case c of (x, y) \<Rightarrow> unoccupied widgets x y width height)"
      using canFit_unoccupied[OF g(2)] by (cases c) simp
  qed
  then show ?thesis using g(1) by (simp add: findAvailablePosition_def)
qed

lemma first_fit:
  assumes rows: "rowsFromZero widgets"
    and sc: "scanned width x y"
    and free: "unoccupied widgets x y width height"
    and first: "\<forall>x' y'. scanned width x' y' \<and> before (x', y') (x, y)
                  \<longrightarrow> \<not> unoccupied widgets x' y' width height"
  shows "findAvailablePosition widgets width height =
           Inr \<lparr>pos_x = x, pos_y = y, pos_w = width, pos_h = height\<rparr>"
proof -
  have r: "\<forall>widget \<in> set widgets. 0 \<le> pos_y (wi_position widget)"
    using rows by (simp add: rowsFromZero_def list_all_iff)
  let ?P = "\<lambda>(x, y). unoccupied widgets x y width height"
  have "List.find ?P (candidates width) = Some (x, y)"
  proof (rule find_first_sorted[OF sorted_candidates])
    show "(x, y) \<in> set (candidates width)" using sc by (simp add: set_candidates)
    show "?P (x, y)" using free by simp
    show "\<forall>b \<in> set (candidates width). before b (x, y) \<longrightarrow> \<not> ?P b"
    proof (intro ballI impI)
      fix b assume b: "b \<in> set (candidates width)" "before b (x, y)"
      obtain x' y' where [simp]: "b = (x', y')" by (cases b)
      have "scanned width x' y'" using b(1) by (simp add: set_candidates)
      then show "\<not> ?P b" using first b(2) by simp
    qed
  qed
  then show ?thesis by (simp add: findAvailablePosition_scan[OF r])
qed

lemma fits_or_falls_back:
  assumes rows: "rowsFromZero widgets"
  shows "\<exists>p. findAvailablePosition widgets width height = Inr p \<and>
           pos_w p = width \<and> pos_h p = height \<and>
           (scanned width (pos_x p) (pos_y p) \<and> unoccupied widgets (pos_x p) (pos_y p) width height
            \<or> (\<forall>x y. scanned width x y \<longrightarrow> \<not> unoccupied widgets x y width height) \<and>
              pos_x p = 0 \<and> pos_y p = gridHeight)"
proof -
  have r: "\<forall>widget \<in> set widgets. 0 \<le> pos_y (wi_position widget)"
    using rows by (simp add: rowsFromZero_def list_all_iff)
  let ?P = "\<lambda>(x, y). unoccupied widgets x y width height"
  show ?thesis
  proof (cases "List.find ?P (candidates width)")
    case None
    then have "\<forall>x y. scanned width x y \<longrightarrow> \<not> unoccupied widgets x y width height"
      by (auto simp: find_None_iff set_candidates)
    then show ?thesis using None by (simp add: findAvailablePosition_scan[OF r])
  next
    case (Some c)
    obtain x y where c: "c = (x, y)" by (cases c)
    have "(x, y) \<in> set (candidates width) \<and> ?P (x, y)"
      using Some c by (auto simp: find_Some_iff dest: nth_mem)
    then have "scanned width x y \<and> unoccupied widgets x y width height"
      by (simp add: set_candidates)
    then show ?thesis using Some c by (simp add: findAvailablePosition_scan[OF r])
  qed
qed

lemma medium_on_empty_grid: "findAvailablePosition ([] :: 'c WidgetInstance list) 2 1 =
      Inr \<lparr>pos_x = 0, pos_y = 0, pos_w = 2, pos_h = 1\<rparr>"
  by (rule first_fit)
     (auto simp: rowsFromZero_def scanned_def unoccupied_def before_def gridHeight_def gridWidth_def list_all_iff)

lemma medium_after_one:
  assumes "wi_position a = \<lparr>pos_x = 0, pos_y = 0, pos_w = 2, pos_h = 1\<rparr>"
  shows "findAvailablePosition [a] 2 1 =
      Inr \<lparr>pos_x = 2, pos_y = 0, pos_w = 2, pos_h = 1\<rparr>"
proof (rule first_fit)
  show "rowsFromZero [a]" using assms by (simp add: rowsFromZero_def)
  show "scanned 2 2 0" by (simp add: scanned_def gridHeight_def gridWidth_def)
  show "unoccupied [a] 2 0 2 1" using assms
    by (auto simp: unoccupied_def covers_def gridHeight_def gridWidth_def list_all_iff)
  show "\<forall>x' y'. scanned 2 x' y' \<and> before (x', y') (2, 0) \<longrightarrow> \<not> unoccupied [a] x' y' 2 1"
  proof (intro allI impI)
    fix x' y' assume h: "scanned 2 x' y' \<and> before (x', y') (2, 0)"
    then have "y' = 0" "0 \<le> x'" "x' < 2" by (auto simp: scanned_def before_def)
    then have "covers a 1 0" "x' \<le> 1" "1 \<le> x' + 2 - 1" using assms by (auto simp: covers_def)
    then show "\<not> unoccupied [a] x' y' 2 1" using \<open>y' = 0\<close>
      by (auto simp: unoccupied_def list_all_iff)
  qed
qed

lemma medium_after_two:
  assumes "wi_position a = \<lparr>pos_x = 0, pos_y = 0, pos_w = 2, pos_h = 1\<rparr>"
    and "wi_position b = \<lparr>pos_x = 2, pos_y = 0, pos_w = 2, pos_h = 1\<rparr>"
  shows "findAvailablePosition [a, b] 2 1 =
      Inr \<lparr>pos_x = 0, pos_y = 1, pos_w = 2, pos_h = 1\<rparr>"
proof (rule first_fit)
  show "rowsFromZero [a, b]" using assms by (simp add: rowsFromZero_def)
  show "scanned 2 0 1" by (simp add: scanned_def gridHeight_def gridWidth_def)
  show "unoccupied [a, b] 0 1 2 1" using assms
    by (auto simp: unoccupied_def covers_def gridHeight_def gridWidth_def list_all_iff)
  show "\<forall>x' y'. scanned 2 x' y' \<and> before (x', y') (0, 1) \<longrightarrow> \<not> unoccupied [a, b] x' y' 2 1"
  proof (intro allI impI)
    fix x' y' assume h: "scanned 2 x' y' \<and> before (x', y') (0, 1)"
    then have y: "y' = 0" and x: "0 \<le> x'" "x' \<le> 2" by (auto simp: scanned_def before_def gridWidth_def)
    have "covers a x' 0 \<or> covers b x' 0" using assms x by (auto simp: covers_def)
    then show "\<not> unoccupied [a, b] x' y' 2 1" using y
      by (auto simp: unoccupied_def list_all_iff)
  qed
qed

section \<open>Placement: first fit in row-major order\<close>

lemma gridCells_rows: "list_all gridCells widgets \<Longrightarrow> rowsFromZero widgets"
  by (auto simp: gridCells_def rowsFromZero_def list_all_iff)

text \<open>
  Claim C1. The existing widget instances are instances of the data model (\<open>gridCells\<close>:
  zero-based cells, safe integers), which is what \<open>addWidget\<close> itself produces (lemma
  \<open>addWidgets_gridCells\<close> below). For every list of such instances and every footprint
  with \<open>1 \<le> width \<le> 4\<close>, \<open>findAvailablePosition\<close> returns the first scanned position
  \<open>(x, y)\<close>, rows from the top and columns from the left, \<open>x\<close> from 0 to \<open>4 - width\<close>
  inclusive, at which the whole rectangle is unoccupied within the 4 by 10 grid: a
  scanned position that is unoccupied while no scanned position before it is. In
  particular a 2 by 1 widget goes to (0,0) on the empty grid, a second one to (2,0) and a
  third one to (0,1). The result is a function of the instances' positions and the
  footprint, hence deterministic.
\<close>

theorem findAvailablePosition_first_fit:
  "(\<forall>(widgets :: 'c WidgetInstance list) width height x y.
      list_all gridCells widgets \<and> 1 \<le> width \<and> width \<le> 4 \<and>
      scanned width x y \<and> unoccupied widgets x y width height \<and>
      (\<forall>x' y'. scanned width x' y' \<and> before (x', y') (x, y)
                 \<longrightarrow> \<not> unoccupied widgets x' y' width height)
      \<longrightarrow> findAvailablePosition widgets width height =
            Inr \<lparr>pos_x = x, pos_y = y, pos_w = width, pos_h = height\<rparr>) \<and>
   findAvailablePosition ([] :: 'c WidgetInstance list) 2 1 =
     Inr \<lparr>pos_x = 0, pos_y = 0, pos_w = 2, pos_h = 1\<rparr> \<and>
   (\<forall>a :: 'c WidgetInstance.
      wi_position a = \<lparr>pos_x = 0, pos_y = 0, pos_w = 2, pos_h = 1\<rparr>
      \<longrightarrow> findAvailablePosition [a] 2 1 = Inr \<lparr>pos_x = 2, pos_y = 0, pos_w = 2, pos_h = 1\<rparr>) \<and>
   (\<forall>(a :: 'c WidgetInstance) b.
      wi_position a = \<lparr>pos_x = 0, pos_y = 0, pos_w = 2, pos_h = 1\<rparr> \<and>
      wi_position b = \<lparr>pos_x = 2, pos_y = 0, pos_w = 2, pos_h = 1\<rparr>
      \<longrightarrow> findAvailablePosition [a, b] 2 1 = Inr \<lparr>pos_x = 0, pos_y = 1, pos_w = 2, pos_h = 1\<rparr>)"
proof (intro conjI allI impI)
  fix widgets :: "'c WidgetInstance list" and width height x y
  assume h: "list_all gridCells widgets \<and> 1 \<le> width \<and> width \<le> 4 \<and>
      scanned width x y \<and> unoccupied widgets x y width height \<and>
      (\<forall>x' y'. scanned width x' y' \<and> before (x', y') (x, y)
                 \<longrightarrow> \<not> unoccupied widgets x' y' width height)"
  then have "rowsFromZero widgets" using gridCells_rows by blast
  then show "findAvailablePosition widgets width height =
            Inr \<lparr>pos_x = x, pos_y = y, pos_w = width, pos_h = height\<rparr>"
    using h first_fit[of widgets width x y height] by blast
next
  show "findAvailablePosition ([] :: 'c WidgetInstance list) 2 1 =
     Inr \<lparr>pos_x = 0, pos_y = 0, pos_w = 2, pos_h = 1\<rparr>" by (rule medium_on_empty_grid)
next
  fix a :: "'c WidgetInstance"
  assume "wi_position a = \<lparr>pos_x = 0, pos_y = 0, pos_w = 2, pos_h = 1\<rparr>"
  then show "findAvailablePosition [a] 2 1 = Inr \<lparr>pos_x = 2, pos_y = 0, pos_w = 2, pos_h = 1\<rparr>"
    by (rule medium_after_one)
next
  fix a b :: "'c WidgetInstance"
  assume "wi_position a = \<lparr>pos_x = 0, pos_y = 0, pos_w = 2, pos_h = 1\<rparr> \<and>
      wi_position b = \<lparr>pos_x = 2, pos_y = 0, pos_w = 2, pos_h = 1\<rparr>"
  then show "findAvailablePosition [a, b] 2 1 = Inr \<lparr>pos_x = 0, pos_y = 1, pos_w = 2, pos_h = 1\<rparr>"
    using medium_after_two by blast
qed

text \<open>The case of the specification's scenario: after a 1 by 1 widget at (0,0), a 2 by 1
  widget goes to (1,0).\<close>

theorem findAvailablePosition_first_fit_witness:
  "list_all gridCells [instanceAt ''a'' \<lparr>pos_x = 0, pos_y = 0, pos_w = 1, pos_h = 1\<rparr>] \<and>
   scanned 2 1 0 \<and>
   unoccupied [instanceAt ''a'' \<lparr>pos_x = 0, pos_y = 0, pos_w = 1, pos_h = 1\<rparr>] 1 0 2 1 \<and>
   \<not> unoccupied [instanceAt ''a'' \<lparr>pos_x = 0, pos_y = 0, pos_w = 1, pos_h = 1\<rparr>] 0 0 2 1 \<and>
   findAvailablePosition [instanceAt ''a'' \<lparr>pos_x = 0, pos_y = 0, pos_w = 1, pos_h = 1\<rparr>] 2 1 =
     Inr \<lparr>pos_x = 1, pos_y = 0, pos_w = 2, pos_h = 1\<rparr>"
proof -
  let ?ws = "[instanceAt ''a'' \<lparr>pos_x = 0, pos_y = 0, pos_w = 1, pos_h = 1\<rparr>]"
  have r: "list_all gridCells ?ws"
    by (simp add: gridCells_def MAX_SAFE_INTEGER_def instanceAt_def)
  have w: "(1::int) \<le> 2 \<and> (2::int) \<le> 4" by simp
  have s: "scanned 2 1 0" by (simp add: scanned_def gridHeight_def gridWidth_def)
  have u: "unoccupied ?ws 1 0 2 1"
    by (auto simp: unoccupied_def covers_def instanceAt_def gridHeight_def gridWidth_def list_all_iff)
  have n: "\<not> unoccupied ?ws 0 0 2 1" by code_simp
  have f: "\<forall>x' y'. scanned 2 x' y' \<and> before (x', y') (1, 0) \<longrightarrow> \<not> unoccupied ?ws x' y' 2 1"
  proof (intro allI impI)
    fix x' y' :: int assume "scanned 2 x' y' \<and> before (x', y') (1, 0)"
    then have "x' = 0" "y' = 0" by (auto simp: scanned_def before_def)
    then show "\<not> unoccupied ?ws x' y' 2 1" using n by simp
  qed
  have "findAvailablePosition ?ws 2 1 = Inr \<lparr>pos_x = 1, pos_y = 0, pos_w = 2, pos_h = 1\<rparr>"
    using findAvailablePosition_first_fit r w s u f by blast
  then show ?thesis using r s u n by blast
qed

section \<open>Placement: a position is always returned\<close>

text \<open>
  Claim C3. The existing widget instances are instances of the data model (\<open>gridCells\<close>).
  For every list of such instances and every footprint with \<open>1 \<le> width \<le> 4\<close>,
  \<open>findAvailablePosition\<close> returns a position with that footprint: either a scanned
  position at which the rectangle is unoccupied, or, when no scanned position fits, the
  fallback position \<open>x = 0\<close>, \<open>y = 10\<close>. Hence the callback of \<open>addWidget\<close> appends an
  instance to such a layout for every widget id that has an entry in the registry: there
  is no no-space failure.
\<close>

theorem findAvailablePosition_always_returns:
  assumes "list_all gridCells widgets" and "1 \<le> width" and "width \<le> 4"
  shows "(\<exists>p. findAvailablePosition widgets width height = Inr p \<and>
            pos_w p = width \<and> pos_h p = height \<and>
            (scanned width (pos_x p) (pos_y p) \<and>
               unoccupied widgets (pos_x p) (pos_y p) width height
             \<or> (\<forall>x y. scanned width x y \<longrightarrow> \<not> unoccupied widgets x y width height) \<and>
               pos_x p = 0 \<and> pos_y p = gridHeight)) \<and>
         (\<forall>registry now widgetId title config layout metadata.
            dl_widgets layout = widgets \<and> registry widgetId = Entry metadata
            \<longrightarrow> (\<exists>added. addWidgetToLayout registry now widgetId title config layout =
                    Inr (layout\<lparr>dl_widgets := widgets @ [added], dl_updatedAt := now\<rparr>)))"
proof (intro conjI allI impI)
  have rows: "rowsFromZero widgets" using assms(1) by (rule gridCells_rows)
  show "\<exists>p. findAvailablePosition widgets width height = Inr p \<and>
            pos_w p = width \<and> pos_h p = height \<and>
            (scanned width (pos_x p) (pos_y p) \<and>
               unoccupied widgets (pos_x p) (pos_y p) width height
             \<or> (\<forall>x y. scanned width x y \<longrightarrow> \<not> unoccupied widgets x y width height) \<and>
               pos_x p = 0 \<and> pos_y p = gridHeight)"
    by (rule fits_or_falls_back[OF rows])
next
  fix registry :: WidgetRegistry and now widgetId title
    and config :: "'a option" and layout :: "'a DashboardLayout" and metadata
  assume h: "dl_widgets layout = widgets \<and> registry widgetId = Entry metadata"
  have rows: "rowsFromZero widgets" using assms(1) by (rule gridCells_rows)
  obtain width' height' where d: "DEFAULT_WIDGET_DIMENSIONS (md_defaultSize metadata) = (width', height')"
    by (cases "DEFAULT_WIDGET_DIMENSIONS (md_defaultSize metadata)")
  from fits_or_falls_back[OF rows, of width' height'] obtain p where
    p: "findAvailablePosition widgets width' height' = Inr p" by blast
  show "\<exists>added. addWidgetToLayout registry now widgetId title config layout =
          Inr (layout\<lparr>dl_widgets := widgets @ [added], dl_updatedAt := now\<rparr>)"
    using h d p by (auto simp: addWidgetToLayout_def createWidgetInstance_def Let_def)
qed

text \<open>A grid filled by one 4 by 10 instance: a 1 by 1 widget goes to the fallback
  position.\<close>

theorem findAvailablePosition_always_returns_witness:
  "list_all gridCells [instanceAt ''a'' \<lparr>pos_x = 0, pos_y = 0, pos_w = 4, pos_h = 10\<rparr>] \<and>
   findAvailablePosition [instanceAt ''a'' \<lparr>pos_x = 0, pos_y = 0, pos_w = 4, pos_h = 10\<rparr>] 1 1 =
     Inr \<lparr>pos_x = 0, pos_y = 10, pos_w = 1, pos_h = 1\<rparr>"
proof -
  let ?ws = "[instanceAt ''a'' \<lparr>pos_x = 0, pos_y = 0, pos_w = 4, pos_h = 10\<rparr>]"
  have r: "list_all gridCells ?ws"
    by (simp add: gridCells_def MAX_SAFE_INTEGER_def instanceAt_def)
  have full: "\<not> unoccupied ?ws x y 1 1" if "scanned 1 x y" for x y
    using that
    by (auto simp: unoccupied_def covers_def instanceAt_def scanned_def gridHeight_def gridWidth_def list_all_iff)
  from findAvailablePosition_always_returns[OF r, of 1 1] obtain p where
    p: "findAvailablePosition ?ws 1 1 = Inr p" "pos_w p = 1" "pos_h p = 1"
       "scanned 1 (pos_x p) (pos_y p) \<and> unoccupied ?ws (pos_x p) (pos_y p) 1 1
        \<or> (\<forall>x y. scanned 1 x y \<longrightarrow> \<not> unoccupied ?ws x y 1 1) \<and> pos_x p = 0 \<and> pos_y p = gridHeight"
    by auto
  have "pos_x p = 0 \<and> pos_y p = 10" using p(4) full by (auto simp: gridHeight_def)
  then have "p = \<lparr>pos_x = 0, pos_y = 10, pos_w = 1, pos_h = 1\<rparr>" using p(2,3) by simp
  then show ?thesis using p(1) r by simp
qed

section \<open>Reading the store fails soft\<close>

text \<open>
  Claim C8. Reading a key that was never written (\<open>getItem\<close> answers \<^verbatim>\<open>null\<close>), or whose
  stored text the deserializer rejects, returns the caller's default value. The read
  never throws: whatever the \<^verbatim>\<open>try\<close> block throws (the storage access included), the
  result is the default value.
\<close>

theorem getStoredValue_fails_soft:
  "(getItem key = Inr None
      \<longrightarrow> getStoredValue getItem key parseJson defaultValue deserializer = defaultValue) \<and>
   (getItem key = Inr (Some raw) \<and> parseJson \<and> deserializer raw = Inl e
      \<longrightarrow> getStoredValue getItem key parseJson defaultValue deserializer = defaultValue) \<and>
   (getStoredValueTry getItem key parseJson defaultValue deserializer = Inl e'
      \<longrightarrow> getStoredValue getItem key parseJson defaultValue deserializer = defaultValue)"
  by (simp add: getStoredValue_def getStoredValueTry_def)

text \<open>A key that was never written, and a key holding text that is not JSON.\<close>

theorem getStoredValue_fails_soft_witness:
  "getStoredValue (\<lambda>k. Inr None) ''theme'' True (Str ''system'' :: unit stored) (\<lambda>t. Inl SyntaxError)
     = Str ''system'' \<and>
   getStoredValue (\<lambda>k. Inr (Some ''{oops'')) ''theme'' True (Str ''system'' :: unit stored)
       (\<lambda>t. Inl SyntaxError)
     = Str ''system''"
  using getStoredValue_fails_soft[where getItem = "\<lambda>k. Inr None" and key = "''theme''"
          and parseJson = True and defaultValue = "Str ''system'' :: unit stored"
          and deserializer = "\<lambda>t. Inl SyntaxError"]
        getStoredValue_fails_soft[where getItem = "\<lambda>k. Inr (Some ''{oops'')" and key = "''theme''"
          and raw = "''{oops''" and parseJson = True and e = SyntaxError
          and defaultValue = "Str ''system'' :: unit stored"
          and deserializer = "\<lambda>t. Inl SyntaxError"]
  by simp

section \<open>Deleting a layout\<close>

text \<open>
  Claim C4, with its last part amended. Deleting the active layout while a layout with
  another id remains makes the first remaining layout active. Deleting so that no layout
  remains sets the active id to the empty string. Deleting an id that no layout of a
  non-empty list has leaves the list unchanged; it leaves the active id unchanged when
  the deleted id differs from the active id, and otherwise (the active id named no
  layout) the first layout becomes active.
\<close>

theorem deleteLayout_repairs_active_layout:
  "(layoutId = currentLayoutId r \<and> filter (\<lambda>layout. dl_id layout \<noteq> layoutId) (layouts r) \<noteq> []
      \<longrightarrow> layouts (deleteLayout layoutId r) = filter (\<lambda>layout. dl_id layout \<noteq> layoutId) (layouts r) \<and>
          currentLayoutId (deleteLayout layoutId r) =
            dl_id (hd (filter (\<lambda>layout. dl_id layout \<noteq> layoutId) (layouts r)))) \<and>
   (filter (\<lambda>layout. dl_id layout \<noteq> layoutId) (layouts r) = []
      \<longrightarrow> layouts (deleteLayout layoutId r) = [] \<and> currentLayoutId (deleteLayout layoutId r) = []) \<and>
   (layoutId \<notin> set (map dl_id (layouts r)) \<and> layouts r \<noteq> [] \<and> layoutId \<noteq> currentLayoutId r
      \<longrightarrow> deleteLayout layoutId r = r) \<and>
   (layoutId \<notin> set (map dl_id (layouts r)) \<and> layouts r \<noteq> [] \<and> layoutId = currentLayoutId r
      \<longrightarrow> layouts (deleteLayout layoutId r) = layouts r \<and>
          currentLayoutId (deleteLayout layoutId r) = dl_id (hd (layouts r)))"
proof -
  let ?kept = "filter (\<lambda>layout. dl_id layout \<noteq> layoutId) (layouts r)"
  have same: "?kept = layouts r" if "layoutId \<notin> set (map dl_id (layouts r))"
    using that by (auto simp: filter_id_conv)
  have active: "layouts (deleteLayout layoutId r) = ?kept \<and>
                currentLayoutId (deleteLayout layoutId r) = dl_id (hd ?kept)"
    if "layoutId = currentLayoutId r" "?kept \<noteq> []"
    using that by (simp add: deleteLayout_def setLayouts_def setCurrentLayoutId_def Let_def hd_conv_nth)
  have last: "layouts (deleteLayout layoutId r) = [] \<and> currentLayoutId (deleteLayout layoutId r) = []"
    if "?kept = []"
    using that by (simp add: deleteLayout_def setLayouts_def setCurrentLayoutId_def Let_def)
  have absent: "deleteLayout layoutId r = r"
    if "layoutId \<notin> set (map dl_id (layouts r))" "layouts r \<noteq> []" "layoutId \<noteq> currentLayoutId r"
    using that same[OF that(1)]
    by (simp add: deleteLayout_def setLayouts_def setCurrentLayoutId_def Let_def)
  have dangling: "layouts (deleteLayout layoutId r) = layouts r \<and>
                  currentLayoutId (deleteLayout layoutId r) = dl_id (hd (layouts r))"
    if "layoutId \<notin> set (map dl_id (layouts r))" "layouts r \<noteq> []" "layoutId = currentLayoutId r"
    using active[OF that(3)] same[OF that(1)] that(2) by simp
  show ?thesis using active last absent dangling by blast
qed

text \<open>Two layouts with the first one active, one layout, and an id that is absent.\<close>

theorem deleteLayout_repairs_active_layout_witness:
  "currentLayoutId (deleteLayout ''layout-1''
      (dashboard [emptyLayout ''layout-1'' ''Ops'', emptyLayout ''layout-2'' ''Dev''] ''layout-1''))
     = ''layout-2'' \<and>
   currentLayoutId (deleteLayout ''layout-1'' (dashboard [emptyLayout ''layout-1'' ''Ops''] ''layout-1''))
     = [] \<and>
   deleteLayout ''layout-9''
      (dashboard [emptyLayout ''layout-1'' ''Ops'', emptyLayout ''layout-2'' ''Dev''] ''layout-1'')
     = dashboard [emptyLayout ''layout-1'' ''Ops'', emptyLayout ''layout-2'' ''Dev''] ''layout-1''"
  using deleteLayout_repairs_active_layout[of "''layout-1''"
          "dashboard [emptyLayout ''layout-1'' ''Ops'', emptyLayout ''layout-2'' ''Dev''] ''layout-1''"]
        deleteLayout_repairs_active_layout[of "''layout-1''"
          "dashboard [emptyLayout ''layout-1'' ''Ops''] ''layout-1''"]
        deleteLayout_repairs_active_layout[of "''layout-9''"
          "dashboard [emptyLayout ''layout-1'' ''Ops'', emptyLayout ''layout-2'' ''Dev''] ''layout-1''"]
  by (simp add: dashboard_def emptyLayout_def)

text \<open>Claim C4 as stated fails in its last part: with one layout and no active layout
  (the empty id), deleting the empty id, which no layout has, makes that layout active.\<close>

theorem deleteLayout_repairs_active_layout_counterexample:
  "[] \<notin> set (map dl_id (layouts (dashboard [emptyLayout ''layout-1'' ''Ops''] []))) \<and>
   layouts (dashboard [emptyLayout ''layout-1'' ''Ops''] []) \<noteq> [] \<and>
   currentLayoutId (dashboard [emptyLayout ''layout-1'' ''Ops''] []) = [] \<and>
   currentLayoutId (deleteLayout [] (dashboard [emptyLayout ''layout-1'' ''Ops''] [])) = ''layout-1''"
  by code_simp

section \<open>Removing a widget twice\<close>

text \<open>
  Claim C7, amended. Removing the same instance twice gives the state that one removal at
  the time of the second call gives: the widgets of every layout and the active id are
  those after the first removal, and the active layout's \<open>updatedAt\<close> is the time of the
  last call. When both calls read the same clock value the second call changes nothing.
\<close>

theorem removeWidget_twice:
  "removeWidget t2 instanceId (removeWidget t1 instanceId r) = removeWidget t2 instanceId r \<and>
   map dl_widgets (layouts (removeWidget t2 instanceId (removeWidget t1 instanceId r))) =
     map dl_widgets (layouts (removeWidget t1 instanceId r)) \<and>
   currentLayoutId (removeWidget t2 instanceId (removeWidget t1 instanceId r)) =
     currentLayoutId (removeWidget t1 instanceId r) \<and>
   removeWidget t1 instanceId (removeWidget t1 instanceId r) = removeWidget t1 instanceId r"
  by (simp add: removeWidget_def setLayouts_def comp_def)

text \<open>Claim C7 as stated fails: a second removal at a later clock reading changes the
  active layout's \<open>updatedAt\<close>.\<close>

theorem removeWidget_twice_counterexample:
  "removeWidget 2 ''widget-a''
     (removeWidget 1 ''widget-a''
        (dashboard [layoutWith ''layout-1'' ''Ops''
                      [instanceAt ''widget-a'' \<lparr>pos_x = 0, pos_y = 0, pos_w = 1, pos_h = 1\<rparr>]] ''layout-1''))
   \<noteq> removeWidget 1 ''widget-a''
        (dashboard [layoutWith ''layout-1'' ''Ops''
                      [instanceAt ''widget-a'' \<lparr>pos_x = 0, pos_y = 0, pos_w = 1, pos_h = 1\<rparr>]] ''layout-1'')"
  by code_simp

section \<open>Updating the configuration\<close>

text \<open>
  Claim C9, amended. \<open>updateConfig\<close> with a settings object replaces the stored settings:
  reading \<open>config\<close> afterwards yields exactly that object, so stored fields the object
  does not mention are gone. With an updater function the new settings are the function's
  result on the settings read before; \<open>setConfigProperty\<close>, which passes the merging
  updater, changes the one property and preserves every other field.
\<close>

theorem updateConfig_replaces_settings:
  "config (updateConfig now widgetId instanceId initialConfig defaultConfig (NewConfig c) currentData)
      initialConfig defaultConfig = c \<and>
   config (updateConfig now widgetId instanceId initialConfig defaultConfig (Updater f) currentData)
      initialConfig defaultConfig = f (config currentData initialConfig defaultConfig) \<and>
   config (setConfigProperty now widgetId instanceId initialConfig defaultConfig property val currentData)
      initialConfig defaultConfig = (config currentData initialConfig defaultConfig)(property \<mapsto> val)"
  by (simp add: config_def updateConfig_def setConfigProperty_def split: option.splits)

text \<open>Claim C9 as stated fails: the stored settings have \<open>a\<close> and \<open>b\<close>, the update
  mentions only \<open>a\<close>, and \<open>b\<close> is not preserved.\<close>

theorem updateConfig_partial_update_counterexample:
  "''b'' \<notin> dom [''a'' \<mapsto> (3::nat)] \<and>
   config (Some (storedConfig [''a'' \<mapsto> 1, ''b'' \<mapsto> 2])) None Map.empty ''b'' = Some 2 \<and>
   config (updateConfig 1 ''status-widget'' ''widget-a'' None Map.empty (NewConfig [''a'' \<mapsto> 3])
             (Some (storedConfig [''a'' \<mapsto> 1, ''b'' \<mapsto> 2]))) None Map.empty ''b'' = None"
  by (simp add: config_def updateConfig_def storedConfig_def)

section \<open>The frame of the widget operations\<close>

lemma map_frame:
  "list_all2 (\<lambda>l l'. P l \<longrightarrow> l' = l) ls (map (\<lambda>l. if P l then l else g l) ls)"
  by (induction ls) auto

lemma mapE_frame:
  "mapE (\<lambda>l. if P l then Inr l else g l) ls = Inr ls' \<Longrightarrow> list_all2 (\<lambda>l l'. P l \<longrightarrow> l' = l) ls ls'"
proof (induction ls arbitrary: ls')
  case Nil
  then show ?case by simp
next
  case (Cons a ls)
  then show ?case by (auto split: sum.splits if_splits)
qed

lemma mapE_no_match:
  "\<forall>l \<in> set ls. P l \<Longrightarrow> mapE (\<lambda>l. if P l then Inr l else g l) ls = Inr ls"
  by (induction ls) auto

lemma list_all2_refl_frame: "list_all2 (\<lambda>l l'. P l \<longrightarrow> l' = l) ls ls"
  by (induction ls) auto

lemma no_current_layout:
  "currentLayout r = None \<Longrightarrow> \<forall>l \<in> set (layouts r). dl_id l \<noteq> currentLayoutId r"
  by (auto simp: currentLayout_def find_None_iff)

lemma addWidget_without_active:
  assumes "currentLayout r = None"
  shows "addWidget registry now widgetId title cfg r =
           r\<lparr>layouts := layouts r, currentLayoutId := ''layout-'' @ decimal now\<rparr>"
  using assms mapE_no_match[OF no_current_layout[OF assms]]
  by (simp add: addWidget_def createLayoutIn_def setLayouts_def setCurrentLayoutId_def Let_def)

lemma addWidget_with_active:
  assumes "currentLayout r \<noteq> None"
  shows "addWidget registry now widgetId title cfg r =
           (case mapE (\<lambda>layout. if dl_id layout \<noteq> currentLayoutId r then Inr layout
                            else addWidgetToLayout registry now widgetId title cfg layout)
                   (layouts r) of
              Inl e \<Rightarrow> r\<lparr>console := console r @ [e]\<rparr>
            | Inr ls \<Rightarrow> r\<lparr>layouts := ls\<rparr>)"
  using assms by (cases "currentLayout r") (simp_all add: addWidget_def setLayouts_def Let_def)

text \<open>
  Claim C10, amended for \<open>addWidget\<close>. All four widget operations leave every layout
  whose id differs from the active id unchanged. \<open>removeWidget\<close>, \<open>updateWidget\<close> and
  \<open>updateWidgetPositions\<close> never change the active id. \<open>addWidget\<close> keeps the active id
  when the active id names a layout of the list; otherwise it sets the active id to the
  id of the default layout it creates.
\<close>

theorem widget_operations_frame:
  "unchangedOutsideActive r (removeWidget now instanceId r) \<and>
   currentLayoutId (removeWidget now instanceId r) = currentLayoutId r \<and>
   unchangedOutsideActive r (updateWidget now instanceId updates r) \<and>
   currentLayoutId (updateWidget now instanceId updates r) = currentLayoutId r \<and>
   unchangedOutsideActive r (updateWidgetPositions now positions r) \<and>
   currentLayoutId (updateWidgetPositions now positions r) = currentLayoutId r \<and>
   unchangedOutsideActive r (addWidget registry now widgetId title cfg r) \<and>
   (currentLayout r \<noteq> None
      \<longrightarrow> currentLayoutId (addWidget registry now widgetId title cfg r) = currentLayoutId r) \<and>
   (currentLayout r = None
      \<longrightarrow> currentLayoutId (addWidget registry now widgetId title cfg r) = ''layout-'' @ decimal now)"
proof -
  have rm: "unchangedOutsideActive r (removeWidget now instanceId r) \<and>
            currentLayoutId (removeWidget now instanceId r) = currentLayoutId r"
    by (simp add: unchangedOutsideActive_def removeWidget_def setLayouts_def map_frame)
  have uw: "unchangedOutsideActive r (updateWidget now instanceId updates r) \<and>
            currentLayoutId (updateWidget now instanceId updates r) = currentLayoutId r"
    by (simp add: unchangedOutsideActive_def updateWidget_def setLayouts_def map_frame)
  have up: "unchangedOutsideActive r (updateWidgetPositions now positions r) \<and>
            currentLayoutId (updateWidgetPositions now positions r) = currentLayoutId r"
    by (simp add: unchangedOutsideActive_def updateWidgetPositions_def setLayouts_def map_frame)
  have aw: "unchangedOutsideActive r (addWidget registry now widgetId title cfg r)"
  proof (cases "currentLayout r = None")
    case True
    then show ?thesis
      by (simp add: addWidget_without_active unchangedOutsideActive_def list_all2_refl_frame)
  next
    case False
    show ?thesis
      using addWidget_with_active[OF False, of registry now widgetId title cfg]
      by (auto simp: unchangedOutsideActive_def list_all2_refl_frame
               split: sum.splits dest: mapE_frame)
  qed
  have keep: "currentLayoutId (addWidget registry now widgetId title cfg r) = currentLayoutId r"
    if "currentLayout r \<noteq> None"
    using addWidget_with_active[OF that, of registry now widgetId title cfg]
    by (simp split: sum.splits)
  have move: "currentLayoutId (addWidget registry now widgetId title cfg r) = ''layout-'' @ decimal now"
    if "currentLayout r = None"
    using that by (simp add: addWidget_without_active)
  show ?thesis using rm uw up aw keep move by blast
qed

text \<open>Two layouts, the first one active: \<open>addWidget\<close> keeps the active id and the second
  layout.\<close>

theorem widget_operations_frame_witness:
  "currentLayout (dashboard [emptyLayout ''layout-1'' ''Ops'', emptyLayout ''layout-2'' ''Dev''] ''layout-1'')
     \<noteq> None \<and>
   currentLayoutId (addWidget widgetRegistry 5 ''status-widget'' None None
       (dashboard [emptyLayout ''layout-1'' ''Ops'', emptyLayout ''layout-2'' ''Dev''] ''layout-1''))
     = ''layout-1'' \<and>
   layouts (addWidget widgetRegistry 5 ''status-widget'' None None
       (dashboard [emptyLayout ''layout-1'' ''Ops'', emptyLayout ''layout-2'' ''Dev''] ''layout-1'')) ! 1
     = emptyLayout ''layout-2'' ''Dev''"
proof -
  let ?r = "dashboard [emptyLayout ''layout-1'' ''Ops'', emptyLayout ''layout-2'' ''Dev''] ''layout-1''"
  let ?s = "addWidget widgetRegistry 5 ''status-widget'' None None ?r"
  have c: "currentLayout ?r \<noteq> None" by code_simp
  have "unchangedOutsideActive ?r ?s" and k: "currentLayoutId ?s = ''layout-1''"
    using widget_operations_frame[of ?r _ _ _ _ widgetRegistry "''status-widget''" None None] c
    by (simp_all add: dashboard_def)
  then have "layouts ?s ! 1 = emptyLayout ''layout-2'' ''Dev''"
    by (auto simp: unchangedOutsideActive_def dashboard_def emptyLayout_def list_all2_Cons1)
  then show ?thesis using c k by simp
qed

text \<open>Claim C10 as stated fails for \<open>addWidget\<close>: without an active layout it changes the
  active id.\<close>

theorem widget_operations_frame_counterexample:
  "currentLayoutId (addWidget widgetRegistry 3 ''status-widget'' None None (dashboard [] [])) = ''layout-3'' \<and>
   currentLayoutId (dashboard [] []) = []"
  by code_simp

section \<open>Adding a widget that the registry does not have\<close>

text \<open>
  Claim C5 at concrete inputs. The callback of \<open>addWidget\<close> throws the not-found error
  for the active layout, but it runs inside the \<^verbatim>\<open>try\<close> of the storage setter: the
  error is logged, \<open>addWidget\<close> returns normally and the caller sees no failure. Without
  an active layout no layout is visited, nothing is thrown or logged, and the active id
  has changed.
\<close>

theorem addWidget_unknown_widget:
  "addWidgetToLayout widgetRegistry 7 ''no-such-widget'' None None (emptyLayout ''layout-1'' ''Ops'') =
     Inl (Error ''Widget with ID no-such-widget not found in registry'') \<and>
   addWidget widgetRegistry 7 ''no-such-widget'' None None
       (dashboard [emptyLayout ''layout-1'' ''Ops''] ''layout-1'') =
     \<lparr>layouts = [emptyLayout ''layout-1'' ''Ops''], currentLayoutId = ''layout-1'',
      console = [Error ''Widget with ID no-such-widget not found in registry'']\<rparr> \<and>
   addWidget widgetRegistry 7 ''no-such-widget'' None None (dashboard [] []) =
     \<lparr>layouts = [], currentLayoutId = ''layout-7'', console = []\<rparr>"
  by code_simp

section \<open>Adding a widget without an active layout\<close>

text \<open>
  Claim C6 at a concrete input: no layouts, no active layout, a registered widget. Both
  setter calls of the handler compute from the list of the same render and the callback
  compares with the active id of that render: the second call stores the old list, in
  which no layout has the old active id. Afterwards the active id names the default
  layout, the list does not contain it, and the widget is in no layout.
\<close>

theorem addWidget_without_active_layout:
  "addWidget widgetRegistry 5 ''status-widget'' (Some ''Health'') None (dashboard [] []) =
     \<lparr>layouts = [], currentLayoutId = ''layout-5'', console = []\<rparr> \<and>
   currentLayout (addWidget widgetRegistry 5 ''status-widget'' (Some ''Health'') None (dashboard [] []))
     = None"
  by code_simp

section \<open>Overlap of inserted widgets\<close>

text \<open>
  What sequences of \<open>addWidget\<close> calls maintain in layouts that start empty: every
  instance lies inside the grid or at the fallback position, and two instances
  intersect only if both are at the fallback position. With at most one instance at the
  fallback position the layout has no overlap.
\<close>

lemma overlapOnlyAtFallback_snoc:
  "overlapOnlyAtFallback (ps @ [p]) =
     (overlapOnlyAtFallback ps \<and>
      list_all (\<lambda>q. rectsIntersect q p \<longrightarrow> atFallback q \<and> atFallback p) ps)"
  by (induction ps) auto

lemma unoccupied_no_intersect:
  assumes u: "unoccupied widgets x y width height" and q: "q \<in> set widgets"
  shows "\<not> rectsIntersect (wi_position q) \<lparr>pos_x = x, pos_y = y, pos_w = width, pos_h = height\<rparr>"
proof
  assume i: "rectsIntersect (wi_position q) \<lparr>pos_x = x, pos_y = y, pos_w = width, pos_h = height\<rparr>"
  let ?j = "max (pos_x (wi_position q)) x" and ?i = "max (pos_y (wi_position q)) y"
  have c: "covers q ?j ?i" using i by (auto simp: rectsIntersect_def covers_def)
  have "?i \<in> set [y .. y + height - 1]" "?j \<in> set [x .. x + width - 1]"
    using i by (auto simp: rectsIntersect_def)
  then have "list_all (\<lambda>widget. \<not> covers widget ?j ?i) widgets"
    using u unfolding unoccupied_def list_all_iff by blast
  then show False using c q by (simp add: list_all_iff)
qed

lemma unoccupied_inside:
  assumes u: "unoccupied widgets x y width height" and "1 \<le> width" "1 \<le> height"
  shows "x + width \<le> gridWidth \<and> y + height \<le> gridHeight"
proof -
  have "y + height - 1 \<in> set [y .. y + height - 1]" "x + width - 1 \<in> set [x .. x + width - 1]"
    using assms(2,3) by auto
  then have "y + height - 1 < gridHeight \<and> x + width - 1 < gridWidth"
    using u unfolding unoccupied_def list_all_iff by blast
  then show ?thesis by simp
qed

lemma default_dimensions_positive:
  "DEFAULT_WIDGET_DIMENSIONS sz = (width, height) \<Longrightarrow> 1 \<le> width \<and> 1 \<le> height"
  by (cases sz) (auto simp: DEFAULT_WIDGET_DIMENSIONS_def)

lemma placed_rows:
  assumes "list_all (\<lambda>p. insideGrid p \<or> atFallback p) (map wi_position widgets)"
  shows "rowsFromZero widgets"
  using assms by (auto simp: rowsFromZero_def list_all_iff insideGrid_def atFallback_def gridHeight_def)

lemma addWidgetToLayout_placed:
  assumes inv: "placedByAddWidget layout"
    and add: "addWidgetToLayout registry now widgetId title cfg layout = Inr layout'"
  shows "placedByAddWidget layout'"
proof -
  let ?ws = "dl_widgets layout"
  have shape: "list_all (\<lambda>p. insideGrid p \<or> atFallback p) (map wi_position ?ws)"
    and pairs: "overlapOnlyAtFallback (map wi_position ?ws)"
    using inv by (simp_all add: placedByAddWidget_def)
  have rows: "rowsFromZero ?ws" using shape by (rule placed_rows)
  from add obtain metadata where m: "registry widgetId = Entry metadata"
    by (auto simp: addWidgetToLayout_def createWidgetInstance_def Let_def
             split: RegistryLookup.splits)
  obtain width height where d: "DEFAULT_WIDGET_DIMENSIONS (md_defaultSize metadata) = (width, height)"
    by (cases "DEFAULT_WIDGET_DIMENSIONS (md_defaultSize metadata)")
  have pos: "1 \<le> width \<and> 1 \<le> height" using d by (rule default_dimensions_positive)
  from fits_or_falls_back[OF rows, of width height] obtain p where
    p: "findAvailablePosition ?ws width height = Inr p" "pos_w p = width" "pos_h p = height"
       "scanned width (pos_x p) (pos_y p) \<and> unoccupied ?ws (pos_x p) (pos_y p) width height
        \<or> (\<forall>x y. scanned width x y \<longrightarrow> \<not> unoccupied ?ws x y width height) \<and>
          pos_x p = 0 \<and> pos_y p = gridHeight"
    by blast
  have peq: "p = \<lparr>pos_x = pos_x p, pos_y = pos_y p, pos_w = width, pos_h = height\<rparr>"
    using p(2,3) by simp
  have l': "map wi_position (dl_widgets layout') = map wi_position ?ws @ [p]"
    using add m d p(1)
    by (auto simp: addWidgetToLayout_def createWidgetInstance_def Let_def)
  have new_shape: "insideGrid p \<or> atFallback p"
    and new_pairs: "\<forall>q \<in> set ?ws. rectsIntersect (wi_position q) p
                      \<longrightarrow> atFallback (wi_position q) \<and> atFallback p"
  proof -
    from p(4) show "insideGrid p \<or> atFallback p"
    proof
      assume a: "scanned width (pos_x p) (pos_y p) \<and> unoccupied ?ws (pos_x p) (pos_y p) width height"
      then have "pos_x p + width \<le> gridWidth \<and> pos_y p + height \<le> gridHeight"
        using unoccupied_inside pos by blast
      then show ?thesis using a p(2,3) pos by (simp add: insideGrid_def scanned_def)
    next
      assume "(\<forall>x y. scanned width x y \<longrightarrow> \<not> unoccupied ?ws x y width height) \<and>
          pos_x p = 0 \<and> pos_y p = gridHeight"
      then show ?thesis by (simp add: atFallback_def)
    qed
    from p(4) show "\<forall>q \<in> set ?ws. rectsIntersect (wi_position q) p
                      \<longrightarrow> atFallback (wi_position q) \<and> atFallback p"
    proof
      assume a: "scanned width (pos_x p) (pos_y p) \<and> unoccupied ?ws (pos_x p) (pos_y p) width height"
      have "\<not> rectsIntersect (wi_position q) p" if "q \<in> set ?ws" for q
        using unoccupied_no_intersect[of ?ws "pos_x p" "pos_y p" width height q] a that peq
        by simp
      then show ?thesis by blast
    next
      assume b: "(\<forall>x y. scanned width x y \<longrightarrow> \<not> unoccupied ?ws x y width height) \<and>
          pos_x p = 0 \<and> pos_y p = gridHeight"
      then have fp: "atFallback p" by (simp add: atFallback_def)
      have "atFallback (wi_position q)"
        if q: "q \<in> set ?ws" and i: "rectsIntersect (wi_position q) p" for q
      proof -
        have "insideGrid (wi_position q) \<or> atFallback (wi_position q)"
          using shape q by (auto simp: list_all_iff)
        moreover have "\<not> insideGrid (wi_position q)"
          using i b by (auto simp: insideGrid_def rectsIntersect_def)
        ultimately show ?thesis by blast
      qed
      then show ?thesis using fp by blast
    qed
  qed
  have "list_all (\<lambda>p. insideGrid p \<or> atFallback p) (map wi_position (dl_widgets layout'))"
    using shape new_shape by (simp add: l')
  moreover have "overlapOnlyAtFallback (map wi_position (dl_widgets layout'))"
    using pairs new_pairs by (simp add: l' overlapOnlyAtFallback_snoc list_all_iff)
  ultimately show ?thesis by (simp add: placedByAddWidget_def)
qed

lemma mapE_preserves:
  assumes step: "\<And>l l'. Q l \<Longrightarrow> f l = Inr l' \<Longrightarrow> Q l'"
  shows "list_all Q ls \<Longrightarrow> mapE f ls = Inr ls' \<Longrightarrow> list_all Q ls'"
proof (induction ls arbitrary: ls')
  case Nil
  then show ?case by simp
next
  case (Cons a ls)
  then show ?case using step by (auto split: sum.splits)
qed

lemma addWidget_placed:
  assumes "list_all placedByAddWidget (layouts r)"
  shows "list_all placedByAddWidget (layouts (addWidget registry now widgetId title cfg r))"
proof (cases "currentLayout r = None")
  case True
  then show ?thesis using assms by (simp add: addWidget_without_active)
next
  case False
  let ?f = "\<lambda>layout. if dl_id layout \<noteq> currentLayoutId r then Inr layout
                       else addWidgetToLayout registry now widgetId title cfg layout"
  have step: "placedByAddWidget l'" if "placedByAddWidget l" "?f l = Inr l'" for l l'
    using that addWidgetToLayout_placed by (auto split: if_splits)
  show ?thesis
  proof (cases "mapE ?f (layouts r)")
    case (Inl e)
    then show ?thesis using assms addWidget_with_active[OF False, of registry now widgetId title cfg]
      by simp
  next
    case (Inr ls)
    have "list_all placedByAddWidget ls"
      using mapE_preserves[of placedByAddWidget ?f, OF step assms Inr] by simp
    then show ?thesis using Inr addWidget_with_active[OF False, of registry now widgetId title cfg]
      by simp
  qed
qed

lemma addWidgets_placed:
  "list_all placedByAddWidget (layouts r)
     \<Longrightarrow> list_all placedByAddWidget (layouts (addWidgets registry calls r))"
proof (induction calls arbitrary: r)
  case Nil
  then show ?case by simp
next
  case (Cons c calls)
  obtain now widgetId title cfg where c: "c = (now, widgetId, title, cfg)" by (cases c) auto
  show ?case using Cons.IH[OF addWidget_placed[OF Cons.prems]] c by simp
qed

lemma one_fallback_no_overlap:
  "overlapOnlyAtFallback ps \<Longrightarrow> length (filter atFallback ps) \<le> 1 \<Longrightarrow> noOverlap ps"
proof (induction ps)
  case Nil
  then show ?case by simp
next
  case (Cons p ps)
  have "\<not> rectsIntersect p q" if q: "q \<in> set ps" for q
  proof
    assume "rectsIntersect p q"
    then have "atFallback p" "atFallback q" using Cons.prems(1) q by (auto simp: list_all_iff)
    then have "filter atFallback ps \<noteq> []" using q by (auto simp: filter_empty_conv)
    then have "1 \<le> length (filter atFallback ps)" by (cases "filter atFallback ps") auto
    then show False using Cons.prems(2) \<open>atFallback p\<close> by simp
  qed
  moreover have "noOverlap ps"
    using Cons by (auto split: if_splits)
  ultimately show ?case by (simp add: list_all_iff)
qed

lemma default_dimensions_small:
  "DEFAULT_WIDGET_DIMENSIONS sz = (width, height) \<Longrightarrow> width \<le> 2 \<and> height \<le> 2"
  by (cases sz) (auto simp: DEFAULT_WIDGET_DIMENSIONS_def)

lemma addWidgetToLayout_gridCells:
  assumes inv: "list_all gridCells (dl_widgets layout)"
    and add: "addWidgetToLayout registry now widgetId title cfg layout = Inr layout'"
  shows "list_all gridCells (dl_widgets layout')"
proof -
  let ?ws = "dl_widgets layout"
  have rows: "rowsFromZero ?ws" using inv by (rule gridCells_rows)
  from add obtain metadata where m: "registry widgetId = Entry metadata"
    by (auto simp: addWidgetToLayout_def createWidgetInstance_def Let_def
             split: RegistryLookup.splits)
  obtain width height where d: "DEFAULT_WIDGET_DIMENSIONS (md_defaultSize metadata) = (width, height)"
    by (cases "DEFAULT_WIDGET_DIMENSIONS (md_defaultSize metadata)")
  have lo: "1 \<le> width \<and> 1 \<le> height" using d by (rule default_dimensions_positive)
  have hi: "width \<le> 2 \<and> height \<le> 2" using d by (rule default_dimensions_small)
  from fits_or_falls_back[OF rows, of width height] obtain p where
    p: "findAvailablePosition ?ws width height = Inr p" "pos_w p = width" "pos_h p = height"
       "scanned width (pos_x p) (pos_y p) \<and> unoccupied ?ws (pos_x p) (pos_y p) width height
        \<or> (\<forall>x y. scanned width x y \<longrightarrow> \<not> unoccupied ?ws x y width height) \<and>
          pos_x p = 0 \<and> pos_y p = gridHeight"
    by blast
  obtain added where l': "dl_widgets layout' = ?ws @ [added]" and a: "wi_position added = p"
    using add m d p(1)
    by (auto simp: addWidgetToLayout_def createWidgetInstance_def Let_def)
  have "0 \<le> pos_x p \<and> 0 \<le> pos_y p \<and> pos_x p \<le> 4 \<and> pos_y p \<le> 10"
    using p(4) lo by (auto simp: scanned_def gridHeight_def gridWidth_def)
  then have "gridCells added"
    using a p(2,3) lo hi by (simp add: gridCells_def MAX_SAFE_INTEGER_def)
  then show ?thesis using inv l' by simp
qed

lemma addWidget_preserves:
  assumes step: "\<And>l l'. Q l \<Longrightarrow> addWidgetToLayout registry now widgetId title cfg l = Inr l' \<Longrightarrow> Q l'"
    and inv: "list_all Q (layouts r)"
  shows "list_all Q (layouts (addWidget registry now widgetId title cfg r))"
proof (cases "currentLayout r = None")
  case True
  then show ?thesis using inv by (simp add: addWidget_without_active)
next
  case False
  let ?f = "\<lambda>layout. if dl_id layout \<noteq> currentLayoutId r then Inr layout
                       else addWidgetToLayout registry now widgetId title cfg layout"
  have st: "Q l'" if "Q l" "?f l = Inr l'" for l l'
    using that step by (auto split: if_splits)
  show ?thesis
  proof (cases "mapE ?f (layouts r)")
    case (Inl e)
    then show ?thesis using inv addWidget_with_active[OF False, of registry now widgetId title cfg]
      by simp
  next
    case (Inr ls)
    have "list_all Q ls"
      using mapE_preserves[of Q ?f, OF st inv Inr] by simp
    then show ?thesis using Inr addWidget_with_active[OF False, of registry now widgetId title cfg]
      by simp
  qed
qed

text \<open>Calls of \<open>addWidget\<close> keep the layouts within the data model; in particular
  layouts that start empty hold only instances of the data model, whatever calls follow.\<close>

lemma addWidgets_gridCells:
  "list_all (\<lambda>layout. list_all gridCells (dl_widgets layout)) (layouts r)
     \<Longrightarrow> list_all (\<lambda>layout. list_all gridCells (dl_widgets layout))
           (layouts (addWidgets registry calls r))"
proof (induction calls arbitrary: r)
  case Nil
  then show ?case by simp
next
  case (Cons c calls)
  obtain now widgetId title cfg where c: "c = (now, widgetId, title, cfg)" by (cases c) auto
  have "list_all (\<lambda>layout. list_all gridCells (dl_widgets layout))
          (layouts (addWidget registry now widgetId title cfg r))"
    using addWidget_preserves[of "\<lambda>layout. list_all gridCells (dl_widgets layout)", OF _ Cons.prems]
          addWidgetToLayout_gridCells
    by blast
  then show ?case using Cons.IH c by simp
qed

lemma overlap_only_at_fallback:
  assumes "list_all (\<lambda>layout. dl_widgets layout = []) (layouts r)"
  shows "list_all (\<lambda>layout. placedByAddWidget layout \<and>
                      (length (filter atFallback (map wi_position (dl_widgets layout))) \<le> 1
                         \<longrightarrow> noOverlap (map wi_position (dl_widgets layout))))
           (layouts (addWidgets registry calls r))"
proof -
  have "list_all placedByAddWidget (layouts r)"
    using assms by (auto simp: list_all_iff placedByAddWidget_def)
  then have "list_all placedByAddWidget (layouts (addWidgets registry calls r))"
    by (rule addWidgets_placed)
  then show ?thesis
    using one_fallback_no_overlap by (auto simp: list_all_iff placedByAddWidget_def)
qed

text \<open>
  Claim C2 at a concrete input: twelve calls for the 2 by 2 widget \<^verbatim>\<open>code-editor\<close> on
  an empty active layout. Ten instances fill the grid; the marking clips rows from 10 on,
  so the eleventh and the twelfth call both get the fallback position \<open>x = 0\<close>,
  \<open>y = 10\<close>, and the two rectangles intersect.
\<close>

theorem addWidget_overlap_at_fallback:
  "list_all (\<lambda>layout. dl_widgets layout = [])
     (layouts (dashboard [emptyLayout ''layout-1'' ''Ops''] ''layout-1'')) \<and>
   map wi_position (drop 10 (dl_widgets (layouts (addWidgets widgetRegistry
       (repeatedAdds ''code-editor'' 12)
       (dashboard [emptyLayout ''layout-1'' ''Ops''] ''layout-1'')) ! 0))) =
     [\<lparr>pos_x = 0, pos_y = 10, pos_w = 2, pos_h = 2\<rparr>, \<lparr>pos_x = 0, pos_y = 10, pos_w = 2, pos_h = 2\<rparr>] \<and>
   rectsIntersect \<lparr>pos_x = 0, pos_y = 10, pos_w = 2, pos_h = 2\<rparr> \<lparr>pos_x = 0, pos_y = 10, pos_w = 2, pos_h = 2\<rparr> \<and>
   \<not> noOverlap (map wi_position (dl_widgets (layouts (addWidgets widgetRegistry
       (repeatedAdds ''code-editor'' 12)
       (dashboard [emptyLayout ''layout-1'' ''Ops''] ''layout-1'')) ! 0)))"
  by code_simp

end
